theory Spec2Isabelle
  imports Main
begin

section \<open>The sandbox record store\<close>

text \<open>
  The Convex module of the sandbox table (\<^verbatim>\<open>createSandbox\<close>, \<^verbatim>\<open>updateSandboxStatus\<close>,
  \<^verbatim>\<open>updateSandboxActivity\<close>, \<^verbatim>\<open>stopSandbox\<close>, \<^verbatim>\<open>getSandboxesToAutoStop\<close>,
  \<^verbatim>\<open>deleteSandbox\<close>) against the schema's tables \<^verbatim>\<open>sandboxes\<close>, \<^verbatim>\<open>fileSnapshots\<close> and
  \<^verbatim>\<open>chatHistory\<close>.

  A document id (\<^verbatim>\<open>_id\<close>) is a natural number handed out by the database; a time is the
  integer number of milliseconds that \<^verbatim>\<open>Date.now()\<close> returns. A table is the list of its
  documents in creation order, which is the order of every index among documents with
  equal index key, so \<^verbatim>\<open>.first()\<close> is the first match of the list and \<^verbatim>\<open>.collect()\<close>
  the matches in list order.
\<close>

type_synonym doc_id = nat
type_synonym millis = int

datatype sandbox_status = Creating | Running | Stopped | Error

text \<open>A document of \<^verbatim>\<open>sandboxes\<close>; \<open>doc_id\<close> is the field \<^verbatim>\<open>_id\<close>. The schema declares
  \<^verbatim>\<open>projectId\<close>, \<^verbatim>\<open>url\<close> and \<^verbatim>\<open>autoStopAt\<close> optional.\<close>

record sandbox =
  doc_id :: doc_id
  userId :: doc_id
  projectId :: "doc_id option"
  sandboxId :: string
  name :: string
  url :: "string option"
  status :: sandbox_status
  startedAt :: millis
  lastActiveAt :: millis
  autoStopAt :: "millis option"
  isTemporary :: bool

text \<open>Of \<^verbatim>\<open>fileSnapshots\<close> and \<^verbatim>\<open>chatHistory\<close> the module reads \<^verbatim>\<open>_id\<close> and \<^verbatim>\<open>sandboxId\<close>
  only (a reference to a sandbox document, optional in \<^verbatim>\<open>chatHistory\<close>).\<close>

record fileSnapshot =
  snapshot_id :: doc_id
  snapshot_sandboxId :: doc_id

record chatHistory =
  chat_id :: doc_id
  chat_sandboxId :: "doc_id option"

record database =
  sandboxes :: "sandbox list"
  fileSnapshots :: "fileSnapshot list"
  chatHistories :: "chatHistory list"
  next_id :: doc_id

datatype store_error = SandboxNotFound

text \<open>A mutation returns the document id, or the error it throws, and the database it
  leaves behind.\<close>

type_synonym mutation_result = "(store_error + doc_id) \<times> database"

text \<open>The grace window \<^verbatim>\<open>15 * 60 * 1000\<close>.\<close>

definition grace_window :: millis where
  "grace_window = 15 * 60 * 1000"

text \<open>\<^verbatim>\<open>ctx.db.query("sandboxes").withIndex("by_sandbox_id", q => q.eq("sandboxId", id)).first()\<close>\<close>

definition first_by_sandbox_id :: "string \<Rightarrow> database \<Rightarrow> sandbox option" where
  "first_by_sandbox_id sid db = find (\<lambda>r. sandboxId r = sid) (sandboxes db)"

text \<open>\<^verbatim>\<open>ctx.db.patch(id, fields)\<close> on \<^verbatim>\<open>sandboxes\<close>: the document with that id gets the fields;
  a field given as \<^verbatim>\<open>undefined\<close> is removed from the document.\<close>

definition patch_sandbox :: "doc_id \<Rightarrow> (sandbox \<Rightarrow> sandbox) \<Rightarrow> database \<Rightarrow> database" where
  "patch_sandbox i f db =
     db\<lparr>sandboxes := map (\<lambda>r. if doc_id r = i then f r else r) (sandboxes db)\<rparr>"

text \<open>\<^verbatim>\<open>createSandbox\<close>: \<open>now\<close> is the reading of \<^verbatim>\<open>Date.now()\<close>, the other arguments are
  \<^verbatim>\<open>args.userId\<close>, \<^verbatim>\<open>args.projectId\<close>, \<^verbatim>\<open>args.sandboxId\<close>, \<^verbatim>\<open>args.name\<close>, \<^verbatim>\<open>args.url\<close> and
  \<^verbatim>\<open>args.isTemporary\<close>.\<close>

definition createSandbox ::
  "millis \<Rightarrow> doc_id \<Rightarrow> doc_id option \<Rightarrow> string \<Rightarrow> string \<Rightarrow> string option \<Rightarrow> bool option
     \<Rightarrow> database \<Rightarrow> doc_id \<times> database" where
  "createSandbox now uid pid sid nm u tmp db =
     (let autoStop = now + grace_window;
          i = next_id db;
          doc = \<lparr>doc_id = i, userId = uid, projectId = pid, sandboxId = sid, name = nm,
                 url = u, status = Creating, startedAt = now, lastActiveAt = now,
                 autoStopAt = Some autoStop,
                 isTemporary = (case tmp of Some b \<Rightarrow> b | None \<Rightarrow> False)\<rparr>
      in (i, db\<lparr>sandboxes := sandboxes db @ [doc], next_id := Suc i\<rparr>))"

definition updateSandboxStatus ::
  "millis \<Rightarrow> string \<Rightarrow> sandbox_status \<Rightarrow> string option \<Rightarrow> database \<Rightarrow> mutation_result" where
  "updateSandboxStatus now sid st u db =
     (case first_by_sandbox_id sid db of
        None \<Rightarrow> (Inl SandboxNotFound, db)
      | Some sb \<Rightarrow>
          (Inr (doc_id sb),
           patch_sandbox (doc_id sb) (\<lambda>r. r\<lparr>status := st, url := u, lastActiveAt := now\<rparr>) db))"

definition updateSandboxActivity :: "millis \<Rightarrow> string \<Rightarrow> database \<Rightarrow> mutation_result" where
  "updateSandboxActivity now sid db =
     (case first_by_sandbox_id sid db of
        None \<Rightarrow> (Inl SandboxNotFound, db)
      | Some sb \<Rightarrow>
          (let newAutoStopAt = now + grace_window
           in (Inr (doc_id sb),
               patch_sandbox (doc_id sb)
                 (\<lambda>r. r\<lparr>lastActiveAt := now, autoStopAt := Some newAutoStopAt\<rparr>) db)))"

definition stopSandbox :: "millis \<Rightarrow> string \<Rightarrow> database \<Rightarrow> mutation_result" where
  "stopSandbox now sid db =
     (case first_by_sandbox_id sid db of
        None \<Rightarrow> (Inl SandboxNotFound, db)
      | Some sb \<Rightarrow>
          (Inr (doc_id sb),
           patch_sandbox (doc_id sb) (\<lambda>r. r\<lparr>status := Stopped, lastActiveAt := now\<rparr>) db))"

text \<open>The filter \<^verbatim>\<open>q.lt(q.field("autoStopAt"), now)\<close>. How the database orders an absent
  field against a number is the database's matter, not the repository's: it is the
  parameter \<open>absent_lt\<close>.\<close>

definition autoStopAt_lt :: "bool \<Rightarrow> millis \<Rightarrow> sandbox \<Rightarrow> bool" where
  "autoStopAt_lt absent_lt now r =
     (case autoStopAt r of Some a \<Rightarrow> a < now | None \<Rightarrow> absent_lt)"

text \<open>\<^verbatim>\<open>getSandboxesToAutoStop\<close>: the index \<^verbatim>\<open>by_status\<close> at \<^verbatim>\<open>"running"\<close>, then the filter.\<close>

definition getSandboxesToAutoStop :: "bool \<Rightarrow> millis \<Rightarrow> database \<Rightarrow> sandbox list" where
  "getSandboxesToAutoStop absent_lt now db =
     filter (autoStopAt_lt absent_lt now)
       (filter (\<lambda>r. status r = Running) (sandboxes db))"

text \<open>\<^verbatim>\<open>deleteSandbox\<close>: the snapshots of the sandbox document (index \<^verbatim>\<open>by_sandbox\<close>) are
  deleted one by one, then its chat histories, then the document.\<close>

definition delete_snapshot :: "doc_id \<Rightarrow> database \<Rightarrow> database" where
  "delete_snapshot i db = db\<lparr>fileSnapshots := filter (\<lambda>s. snapshot_id s \<noteq> i) (fileSnapshots db)\<rparr>"

definition delete_chat :: "doc_id \<Rightarrow> database \<Rightarrow> database" where
  "delete_chat i db = db\<lparr>chatHistories := filter (\<lambda>c. chat_id c \<noteq> i) (chatHistories db)\<rparr>"

definition delete_sandbox_doc :: "doc_id \<Rightarrow> database \<Rightarrow> database" where
  "delete_sandbox_doc i db = db\<lparr>sandboxes := filter (\<lambda>r. doc_id r \<noteq> i) (sandboxes db)\<rparr>"

definition deleteSandbox :: "string \<Rightarrow> database \<Rightarrow> mutation_result" where
  "deleteSandbox sid db =
     (case first_by_sandbox_id sid db of
        None \<Rightarrow> (Inl SandboxNotFound, db)
      | Some sb \<Rightarrow>
          (let snapshots = filter (\<lambda>s. snapshot_sandboxId s = doc_id sb) (fileSnapshots db);
               db1 = fold (\<lambda>s. delete_snapshot (snapshot_id s)) snapshots db;
               chats = filter (\<lambda>c. chat_sandboxId c = Some (doc_id sb)) (chatHistories db1);
               db2 = fold (\<lambda>c. delete_chat (chat_id c)) chats db1
           in (Inr (doc_id sb), delete_sandbox_doc (doc_id sb) db2)))"

definition empty_database :: database where
  "empty_database = \<lparr>sandboxes = [], fileSnapshots = [], chatHistories = [], next_id = 0\<rparr>"


section \<open>Git URL utilities\<close>

text \<open>Strings are lists of characters. \<^verbatim>\<open>s.endsWith(t)\<close> and \<^verbatim>\<open>s.startsWith(t)\<close>:\<close>

definition endsWith :: "string \<Rightarrow> string \<Rightarrow> bool" where
  "endsWith s suf = (length suf \<le> length s \<and> drop (length s - length suf) s = suf)"

definition startsWith :: "string \<Rightarrow> string \<Rightarrow> bool" where
  "startsWith s pre = (take (length pre) s = pre)"

text \<open>
  The two regular expressions of \<^verbatim>\<open>parseGitUrl\<close>,
  \<^verbatim>\<open>/https:\/\/github\.com\/([^\/]+)\/([^\/\?]+)/\<close> and
  \<^verbatim>\<open>/git@github\.com:([^\/]+)\/([^\/\?]+)/\<close>, are a literal prefix followed by
  \<^verbatim>\<open>([^\/]+)\/([^\/\?]+)\<close>. \<open>match_repo_at pre s\<close> is the match that starts at the
  first character of \<open>s\<close>: after the prefix, the first group is the longest run of
  characters other than the slash (a shorter one is not followed by a slash, so
  backtracking finds no other), it is not empty and a slash follows; the second group is
  the longest run of characters other than the slash and the question mark, and is not
  empty. The result is the pair of the groups.
\<close>

definition match_repo_at :: "string \<Rightarrow> string \<Rightarrow> (string \<times> string) option" where
  "match_repo_at pre s =
     (if startsWith s pre then
        (let rest = drop (length pre) s;
             own = takeWhile (\<lambda>c. c \<noteq> CHR ''/'') rest;
             after = dropWhile (\<lambda>c. c \<noteq> CHR ''/'') rest
         in if own = [] \<or> after = [] then None
            else (let nm = takeWhile (\<lambda>c. c \<noteq> CHR ''/'' \<and> c \<noteq> CHR ''?'') (tl after)
                  in if nm = [] then None else Some (own, nm)))
      else None)"

text \<open>\<^verbatim>\<open>s.match(re)\<close> for an expression without anchors: the match at the leftmost
  position that has one.\<close>

fun search_repo :: "string \<Rightarrow> string \<Rightarrow> (string \<times> string) option" where
  "search_repo pre [] = match_repo_at pre []"
| "search_repo pre (c # cs) =
     (case match_repo_at pre (c # cs) of
        Some m \<Rightarrow> Some m
      | None \<Rightarrow> search_repo pre cs)"

text \<open>The interface \<^verbatim>\<open>GitRepoInfo\<close> (fields \<^verbatim>\<open>url\<close>, \<^verbatim>\<open>name\<close>, \<^verbatim>\<open>owner\<close>, \<^verbatim>\<open>branch\<close>,
  \<^verbatim>\<open>isPrivate\<close>).\<close>

record GitRepoInfo =
  info_url :: string
  info_name :: string
  info_owner :: string
  info_branch :: string
  info_isPrivate :: bool

text \<open>\<^verbatim>\<open>parseGitUrl\<close>; \<^verbatim>\<open>null\<close> is \<open>None\<close>. Nothing in its body throws.\<close>

definition parseGitUrl :: "string \<Rightarrow> GitRepoInfo option" where
  "parseGitUrl gitUrl =
     (let cleanUrl = (if endsWith gitUrl ''.git'' then take (length gitUrl - 4) gitUrl
                      else gitUrl)
      in case search_repo ''https://github.com/'' cleanUrl of
           Some (own, nm) \<Rightarrow>
             Some \<lparr>info_url = gitUrl, info_name = nm, info_owner = own,
                   info_branch = ''main'', info_isPrivate = False\<rparr>
         | None \<Rightarrow>
             (case search_repo ''git@github.com:'' cleanUrl of
                Some (own, nm) \<Rightarrow>
                  Some \<lparr>info_url = gitUrl, info_name = nm, info_owner = own,
                        info_branch = ''main'', info_isPrivate = False\<rparr>
              | None \<Rightarrow> None))"

text \<open>
  \<^verbatim>\<open>isValidGitUrl\<close> tests the whole string against
  \<^verbatim>\<open>/^(https:\/\/github\.com\/[^\/]+\/[^\/\?]+|git@github\.com:[^\/]+\/[^\/\?]+)(.git)?$/\<close>.
  After either prefix, \<open>valid_repo_path\<close> reads \<^verbatim>\<open>[^\/]+\/[^\/\?]+(.git)?$\<close>: a run without
  slash, a slash, and then either a run without slash and question mark to the end, or
  such a run followed by one character that is no line terminator and the letters
  \<^verbatim>\<open>git\<close> (the dot of \<^verbatim>\<open>(.git)?\<close> is not escaped). Of the line terminators, line feed and
  carriage return are characters of this model.
\<close>

definition name_chars :: "string \<Rightarrow> bool" where
  "name_chars xs = (xs \<noteq> [] \<and> list_all (\<lambda>c. c \<noteq> CHR ''/'' \<and> c \<noteq> CHR ''?'') xs)"

definition line_terminator :: "char \<Rightarrow> bool" where
  "line_terminator c = (c = CHR 0x0A \<or> c = CHR 0x0D)"

definition valid_repo_path :: "string \<Rightarrow> bool" where
  "valid_repo_path rest =
     (let own = takeWhile (\<lambda>c. c \<noteq> CHR ''/'') rest;
          after = dropWhile (\<lambda>c. c \<noteq> CHR ''/'') rest
      in own \<noteq> [] \<and> after \<noteq> [] \<and>
         (let tail = tl after
          in name_chars tail \<or>
             (4 \<le> length tail \<and> name_chars (take (length tail - 4) tail) \<and>
              \<not> line_terminator (tail ! (length tail - 4)) \<and>
              drop (length tail - 3) tail = ''git'')))"

definition isValidGitUrl :: "string \<Rightarrow> bool" where
  "isValidGitUrl u =
     ((startsWith u ''https://github.com/'' \<and>
         valid_repo_path (drop (length ''https://github.com/'') u)) \<or>
      (startsWith u ''git@github.com:'' \<and>
         valid_repo_path (drop (length ''git@github.com:'') u)))"

subsection \<open>JSON values\<close>

text \<open>
  A value that \<^verbatim>\<open>JSON.parse\<close> or \<^verbatim>\<open>response.json()\<close> returns. A number is given by an
  integer: the code below only tests a number for being zero and passes it on. The keys
  of an object are distinct.
\<close>

datatype json =
  JNull | JBool bool | JNumber int | JString string | JArray "json list"
  | JObject "(string \<times> json) list"

text \<open>What a caught exception is: an \<^verbatim>\<open>Error\<close> with its message, or another value.\<close>

datatype thrown = ErrorObject string | NonError

text \<open>Reading a property \<^verbatim>\<open>v.key\<close> for one of the keys the code reads (\<^verbatim>\<open>success\<close>,
  \<^verbatim>\<open>error\<close>, \<^verbatim>\<open>hasPackageJson\<close>, \<^verbatim>\<open>private\<close>, \<^verbatim>\<open>default_branch\<close>, \<^verbatim>\<open>name\<close>; none of them is a
  property of a string, a number, a boolean or an array): \<^verbatim>\<open>null\<close> throws a
  \<^verbatim>\<open>TypeError\<close> (its message is written as the V8 engine words it), an object without
  the key and every other value give \<^verbatim>\<open>undefined\<close>, which is \<open>None\<close>.\<close>

fun get_prop :: "json \<Rightarrow> string \<Rightarrow> thrown + json option" where
  "get_prop JNull k =
     Inl (ErrorObject (''Cannot read properties of null (reading '' @ [CHR 0x27] @ k @
                       [CHR 0x27] @ '')''))"
| "get_prop (JObject kvs) k = Inr (map_of kvs k)"
| "get_prop v k = Inr None"

text \<open>Truthiness of a value or \<^verbatim>\<open>undefined\<close>.\<close>

fun truthy :: "json option \<Rightarrow> bool" where
  "truthy None = False"
| "truthy (Some JNull) = False"
| "truthy (Some (JBool b)) = b"
| "truthy (Some (JNumber n)) = (n \<noteq> 0)"
| "truthy (Some (JString s)) = (s \<noteq> [])"
| "truthy (Some (JArray xs)) = True"
| "truthy (Some (JObject kvs)) = True"

text \<open>\<^verbatim>\<open>v || d\<close>.\<close>

definition or_default :: "json option \<Rightarrow> json \<Rightarrow> json" where
  "or_default v d = (if truthy v then the v else d)"

subsection \<open>Repository validation over the hosting provider's API\<close>

text \<open>
  \<^verbatim>\<open>fetch\<close> is the world: a function from the request (its address and the headers sent
  with it) to what comes back, a thrown error or a response with its status and the
  outcome of \<^verbatim>\<open>response.json()\<close> (\<open>Inl\<close> when that throws).
\<close>

record http_request =
  request_url :: string
  request_headers :: "(string \<times> string) list"

record http_response =
  response_status :: nat
  response_json :: "thrown + json"

type_synonym fetch = "http_request \<Rightarrow> thrown + http_response"

text \<open>\<^verbatim>\<open>response.ok\<close>.\<close>

definition response_ok :: "http_response \<Rightarrow> bool" where
  "response_ok r = (200 \<le> response_status r \<and> response_status r \<le> 299)"

text \<open>A string is truthy when it is present and not empty (\<^verbatim>\<open>if (accessToken)\<close>).\<close>

definition truthy_string :: "string option \<Rightarrow> bool" where
  "truthy_string s = (case s of None \<Rightarrow> False | Some t \<Rightarrow> t \<noteq> [])"

text \<open>The decimal digits of a number, as a template literal prints it.\<close>

definition digit_char :: "nat \<Rightarrow> char" where
  "digit_char d = char_of (of_char (CHR ''0'') + d)"

fun string_of_nat :: "nat \<Rightarrow> string" where
  "string_of_nat n =
     (if 10 \<le> n then string_of_nat (n div 10) @ [digit_char (n mod 10)]
      else [digit_char n])"

declare string_of_nat.simps [simp del]

text \<open>\<^verbatim>\<open>error instanceof Error ? error.message : 'Unknown error'\<close>\<close>

definition error_message :: "thrown \<Rightarrow> string" where
  "error_message e = (case e of ErrorObject m \<Rightarrow> m | NonError \<Rightarrow> ''Unknown error'')"

text \<open>The object \<^verbatim>\<open>validateRepository\<close> returns. \<^verbatim>\<open>isPrivate\<close> and \<^verbatim>\<open>defaultBranch\<close> are
  whatever value the response carries when it is truthy.\<close>

record validation =
  v_exists :: bool
  v_isPrivate :: json
  v_defaultBranch :: json
  v_error :: "string option"

text \<open>The header object the two functions build, and never pass to \<^verbatim>\<open>fetch\<close>.\<close>

definition api_headers :: "string option \<Rightarrow> (string \<times> string) list" where
  "api_headers accessToken =
     [(''Accept'', ''application/vnd.github.v3+json'')] @
     (if truthy_string accessToken then [(''Authorization'', ''token '' @ the accessToken)]
      else [])"

definition validation_failed :: "string \<Rightarrow> validation" where
  "validation_failed msg =
     \<lparr>v_exists = False, v_isPrivate = JBool False, v_defaultBranch = JString ''main'',
      v_error = Some msg\<rparr>"

definition validateRepository :: "fetch \<Rightarrow> string \<Rightarrow> string option \<Rightarrow> validation" where
  "validateRepository fetch gitUrl accessToken =
     (case parseGitUrl gitUrl of
        None \<Rightarrow> validation_failed ''Invalid Git URL''
      | Some repoInfo \<Rightarrow>
          (let apiUrl = ''https://api.github.com/repos/'' @ info_owner repoInfo @ ''/'' @
                        info_name repoInfo;
               headers = api_headers accessToken
           in case fetch \<lparr>request_url = apiUrl, request_headers = []\<rparr> of
                Inl e \<Rightarrow> validation_failed (''Validation error: '' @ error_message e)
              | Inr response \<Rightarrow>
                  if response_status response = 200 then
                    (case response_json response of
                       Inl e \<Rightarrow> validation_failed (''Validation error: '' @ error_message e)
                     | Inr data \<Rightarrow>
                         (case get_prop data ''private'' of
                            Inl e \<Rightarrow>
                              validation_failed (''Validation error: '' @ error_message e)
                          | Inr priv \<Rightarrow>
                              \<lparr>v_exists = True,
                               v_isPrivate = or_default priv (JBool False),
                               v_defaultBranch =
                                 or_default (projr (get_prop data ''default_branch''))
                                   (JString ''main''),
                               v_error = None\<rparr>))
                  else if response_status response = 404 then
                    validation_failed ''Repository not found or not accessible''
                  else if response_status response = 403 then
                    \<lparr>v_exists = True, v_isPrivate = JBool True,
                     v_defaultBranch = JString ''main'',
                     v_error = Some ''Repository is private and requires authentication''\<rparr>
                  else
                    validation_failed
                      (''GitHub API error: '' @ string_of_nat (response_status response))))"

text \<open>\<^verbatim>\<open>getBranches\<close>: the names of the branches, each the value of \<^verbatim>\<open>branch.name\<close>
  (\<open>None\<close> is \<^verbatim>\<open>undefined\<close>), or \<^verbatim>\<open>['main']\<close>. A body that is no array has no \<^verbatim>\<open>map\<close>
  to call, and an element \<^verbatim>\<open>null\<close> has no \<^verbatim>\<open>name\<close> to read: both throw, and the
  \<^verbatim>\<open>catch\<close> returns \<^verbatim>\<open>['main']\<close>.\<close>

definition getBranches :: "fetch \<Rightarrow> string \<Rightarrow> string option \<Rightarrow> json option list" where
  "getBranches fetch gitUrl accessToken =
     (case parseGitUrl gitUrl of
        None \<Rightarrow> [Some (JString ''main'')]
      | Some repoInfo \<Rightarrow>
          (let apiUrl = ''https://api.github.com/repos/'' @ info_owner repoInfo @ ''/'' @
                        info_name repoInfo @ ''/branches'';
               headers = api_headers accessToken
           in case fetch \<lparr>request_url = apiUrl, request_headers = []\<rparr> of
                Inl e \<Rightarrow> [Some (JString ''main'')]
              | Inr response \<Rightarrow>
                  if response_ok response then
                    (case response_json response of
                       Inr (JArray branches) \<Rightarrow>
                         (if list_all (\<lambda>b. b \<noteq> JNull) branches
                          then map (\<lambda>b. projr (get_prop b ''name'')) branches
                          else [Some (JString ''main'')])
                     | _ \<Rightarrow> [Some (JString ''main'')])
                  else [Some (JString ''main'')]))"

section \<open>The clone route\<close>

subsection \<open>The request schema\<close>

text \<open>
  \<^verbatim>\<open>cloneSchema.parse(body)\<close> returns the validated data or throws a \<^verbatim>\<open>ZodError\<close>, given
  here by the names of the fields that have an issue (a body that is no object is one
  issue with the empty path). \<^verbatim>\<open>z.string().url()\<close> asks the platform's URL parser whether
  the string parses as a URL; the parser is no part of the repository and is the
  parameter \<open>isUrl\<close>. An optional field accepts \<^verbatim>\<open>undefined\<close> and no \<^verbatim>\<open>null\<close>.
\<close>

record clone_request =
  gitUrl :: string
  branch :: string
  projectName :: string
  description :: "string option"
  isPrivate :: bool
  accessToken :: "string option"
  given_sandboxId :: "string option"

datatype zod_error = ZodError "string list"

text \<open>\<^verbatim>\<open>z.string()\<close> with a further check, \<^verbatim>\<open>z.string().optional()\<close>, and
  \<^verbatim>\<open>z.boolean().optional().default(false)\<close>; \<open>None\<close> is an issue.\<close>

definition zod_string :: "(string \<Rightarrow> bool) \<Rightarrow> json option \<Rightarrow> string option" where
  "zod_string check v = (case v of Some (JString s) \<Rightarrow> if check s then Some s else None
                         | _ \<Rightarrow> None)"

definition zod_optional_string :: "json option \<Rightarrow> string option option" where
  "zod_optional_string v = (case v of None \<Rightarrow> Some None | Some (JString s) \<Rightarrow> Some (Some s)
                            | _ \<Rightarrow> None)"

definition zod_optional_boolean :: "json option \<Rightarrow> bool option" where
  "zod_optional_boolean v = (case v of None \<Rightarrow> Some False | Some (JBool b) \<Rightarrow> Some b
                             | _ \<Rightarrow> None)"

definition issue :: "string \<Rightarrow> 'a option \<Rightarrow> string list" where
  "issue field v = (case v of None \<Rightarrow> [field] | Some _ \<Rightarrow> [])"

definition cloneSchema_parse :: "(string \<Rightarrow> bool) \<Rightarrow> json \<Rightarrow> zod_error + clone_request" where
  "cloneSchema_parse isUrl json_body =
     (case json_body of
        JObject kvs \<Rightarrow>
          (let g = zod_string isUrl (map_of kvs ''gitUrl'');
               b = zod_optional_string (map_of kvs ''branch'');
               p = zod_string (\<lambda>s. 1 \<le> length s) (map_of kvs ''projectName'');
               d = zod_optional_string (map_of kvs ''description'');
               i = zod_optional_boolean (map_of kvs ''isPrivate'');
               a = zod_optional_string (map_of kvs ''accessToken'');
               s = zod_optional_string (map_of kvs ''sandboxId'');
               issues = issue ''gitUrl'' g @ issue ''branch'' b @ issue ''projectName'' p @
                        issue ''description'' d @ issue ''isPrivate'' i @
                        issue ''accessToken'' a @ issue ''sandboxId'' s
           in if issues = [] then
                Inr \<lparr>gitUrl = the g,
                     branch = (case the b of None \<Rightarrow> ''main'' | Some x \<Rightarrow> x),
                     projectName = the p, description = the d, isPrivate = the i,
                     accessToken = the a, given_sandboxId = the s\<rparr>
              else Inl (ZodError issues))
      | _ \<Rightarrow> Inl (ZodError [[]]))"

subsection \<open>The remote side\<close>

text \<open>A call either throws or returns.\<close>

datatype 'a outcome = Throws thrown | Returns 'a

text \<open>
  The script that starts the development server runs inside the sandbox. It reads the
  scripts of \<^verbatim>\<open>package.json\<close> (\<open>Unreadable\<close> when opening or reading the file raises),
  takes the first of \<^verbatim>\<open>dev\<close>, \<^verbatim>\<open>start\<close>, \<^verbatim>\<open>serve\<close> that is declared, starts it and after
  three seconds looks whether the process still runs. What it prints is its report.
\<close>

datatype manifest = Unreadable | Scripts "string list"

datatype process_state = SpawnFails | Exited | Alive

datatype launch_report = NoDevScript | ServerStarted string | ServerFailed string | LaunchError

text \<open>The script that clones prints what became of the command: the exit code of
  \<^verbatim>\<open>git clone\<close>, a timeout, or another exception.\<close>

datatype clone_report = CloneExit int | CloneTimedOut | CloneRaised

definition select_dev_command :: "string list \<Rightarrow> string option" where
  "select_dev_command scripts =
     (if ''dev'' \<in> set scripts then Some ''npm run dev''
      else if ''start'' \<in> set scripts then Some ''npm start''
      else if ''serve'' \<in> set scripts then Some ''npm run serve''
      else None)"

definition launch_script :: "manifest \<Rightarrow> process_state \<Rightarrow> launch_report" where
  "launch_script m p =
     (case m of
        Unreadable \<Rightarrow> LaunchError
      | Scripts scripts \<Rightarrow>
          (case select_dev_command scripts of
             None \<Rightarrow> NoDevScript
           | Some dev_command \<Rightarrow>
               (case p of
                  SpawnFails \<Rightarrow> LaunchError
                | Alive \<Rightarrow> ServerStarted dev_command
                | Exited \<Rightarrow> ServerFailed dev_command)))"

text \<open>
  What the handler meets: the session lookup (whether there is a session), the body of
  the request, \<^verbatim>\<open>E2BCodeInterpreter.create\<close> (given the id to connect to, if any; it
  returns the id of the sandbox, or no sandbox), the four \<^verbatim>\<open>runCode\<close> calls (of the
  clone, the report of its script; of the inspection, the text of each entry of
  \<^verbatim>\<open>results\<close>), the manifest and the process the launch script finds, \<^verbatim>\<open>getHostname\<close>, and \<^verbatim>\<open>close\<close> (by the number of earlier calls of
  it).
\<close>

record environment =
  session :: "bool outcome"
  request_json :: "json outcome"
  create :: "string option \<Rightarrow> string option outcome"
  clone_run :: "clone_report outcome"
  check_run :: "string option list outcome"
  install_run :: "unit outcome"
  launch_run :: "unit outcome"
  package_manifest :: manifest
  server_process :: process_state
  getHostname :: "nat \<Rightarrow> string outcome"
  close :: "nat \<Rightarrow> unit outcome"

text \<open>The calls made to the remote sandbox, in order: creating or attaching, the clone
  command, the inspection of the project directory, the install, the launch with the
  report it printed (if the call returned), a host name lookup, closing.\<close>

datatype remote_call =
  Create "string option" | RunClone string | RunCheck string | RunInstall string
  | RunLaunch string "launch_report option" | GetHostname nat | Close

subsection \<open>Responses\<close>

record success_body =
  success :: bool
  body_sandboxId :: string
  body_projectName :: string
  projectInfo :: json
  serverUrl :: "string option"
  message :: string

datatype response_body =
  ErrorBody json | InvalidRequest "string list" | SuccessBody success_body

record response =
  http_status :: nat
  body :: response_body

definition error_response :: "nat \<Rightarrow> string \<Rightarrow> response" where
  "error_response code msg = \<lparr>http_status = code, body = ErrorBody (JString msg)\<rparr>"

subsection \<open>The clone command\<close>

text \<open>\<^verbatim>\<open>s.replace(pat, '')\<close> for a string pattern removes its first occurrence;
  \<^verbatim>\<open>s.split(d)\<close>; \<^verbatim>\<open>parts.join(d)\<close>.\<close>

fun remove_first :: "string \<Rightarrow> string \<Rightarrow> string" where
  "remove_first pat [] = []"
| "remove_first pat (c # cs) =
     (if startsWith (c # cs) pat then drop (length pat) (c # cs)
      else c # remove_first pat cs)"

fun split_on :: "char \<Rightarrow> string \<Rightarrow> string list" where
  "split_on d [] = [[]]"
| "split_on d (c # cs) =
     (if c = d then [] # split_on d cs
      else (case split_on d cs of
              [] \<Rightarrow> [[c]]
            | w # ws \<Rightarrow> (c # w) # ws))"

fun join_with :: "string \<Rightarrow> string list \<Rightarrow> string" where
  "join_with d [] = []"
| "join_with d [w] = w"
| "join_with d (w # ws) = w @ d @ join_with d ws"

definition authGitUrl :: "clone_request \<Rightarrow> string" where
  "authGitUrl r =
     (if isPrivate r \<and> truthy_string (accessToken r) then
        (let urlParts = split_on (CHR ''/'') (remove_first ''https://'' (gitUrl r));
             host = hd urlParts;
             pathParts = tl urlParts
         in ''https://'' @ the (accessToken r) @ ''@'' @ host @ ''/'' @
            join_with ''/'' pathParts)
      else gitUrl r)"

definition cloneCommand :: "clone_request \<Rightarrow> string" where
  "cloneCommand r =
     ''git clone '' @ (if isPrivate r then ''-q'' else []) @ '' -b '' @ branch r @ '' '' @
     [CHR 0x22] @ authGitUrl r @ [CHR 0x22] @ '' '' @
     [CHR 0x22] @ projectName r @ [CHR 0x22]"

subsection \<open>Reading the inspection's output\<close>

text \<open>
  \<^verbatim>\<open>output.trim()\<close> strips white space and line terminators from both ends. Of these,
  the characters of this model (the code units below 256) are the tab, the line feed,
  the vertical tab, the form feed, the carriage return, the space and the no-break
  space.
\<close>

definition white_space :: "char \<Rightarrow> bool" where
  "white_space c =
     (c \<in> {CHR 0x09, CHR 0x0A, CHR 0x0B, CHR 0x0C, CHR 0x0D, CHR '' '', CHR 0xA0})"

definition trim :: "string \<Rightarrow> string" where
  "trim s = rev (dropWhile white_space (rev (dropWhile white_space s)))"

text \<open>
  The block that reads \<^verbatim>\<open>checkResult.results[0]?.text\<close>: without a first result, without
  text or with an empty text the output is the literal \<^verbatim>\<open>{"success": false}\<close>, whose parse
  is written out; otherwise the last line of the trimmed text goes to \<^verbatim>\<open>JSON.parse\<close>,
  the parameter \<open>json_parse\<close> (\<open>None\<close> when it throws), and a failure is caught.
\<close>

definition read_project_info :: "(string \<Rightarrow> json option) \<Rightarrow> string option list \<Rightarrow> json" where
  "read_project_info json_parse results =
     (let text = (case results of [] \<Rightarrow> None | r # _ \<Rightarrow> r)
      in if truthy_string text then
           (let lines = split_on (CHR 0x0A) (trim (the text));
                jsonLine = last lines
            in case json_parse jsonLine of
                 Some v \<Rightarrow> v
               | None \<Rightarrow> JObject [(''success'', JBool False),
                                  (''error'', JString ''Failed to parse project info'')])
         else JObject [(''success'', JBool False)])"

subsection \<open>The handler\<close>

text \<open>\<^verbatim>\<open>startDevServer\<close>: the address, or \<^verbatim>\<open>null\<close>, and the calls it made. The template
  literal on the left of \<^verbatim>\<open>||\<close> is never empty, so the right side is never evaluated.\<close>

definition startDevServer ::
  "environment \<Rightarrow> string \<Rightarrow> json \<Rightarrow> string option \<times> remote_call list" where
  "startDevServer env pname info =
     (case get_prop info ''hasPackageJson'' of
        Inl e \<Rightarrow> (None, [])
      | Inr h \<Rightarrow>
          if truthy h then
            (case launch_run env of
               Throws e \<Rightarrow> (None, [RunLaunch pname None])
             | Returns _ \<Rightarrow>
                 (let started = RunLaunch pname
                       (Some (launch_script (package_manifest env) (server_process env)))
                  in case getHostname env 3000 of
                       Throws e \<Rightarrow> (None, [started, GetHostname 3000])
                     | Returns host \<Rightarrow>
                         (Some (''https://'' @ host), [started, GetHostname 3000])))
          else (None, []))"

text \<open>The body of the inner \<^verbatim>\<open>try\<close>: the response it returns or what it throws, and the
  calls made.\<close>

definition clone_steps ::
  "(string \<Rightarrow> json option) \<Rightarrow> environment \<Rightarrow> clone_request \<Rightarrow> string
     \<Rightarrow> (thrown + response) \<times> remote_call list" where
  "clone_steps json_parse env r targetSandboxId =
     (let c1 = [RunClone (cloneCommand r)] in
      case clone_run env of
        Throws e \<Rightarrow> (Inl e, c1)
      | Returns _ \<Rightarrow>
          (let c2 = c1 @ [RunCheck (projectName r)] in
           case check_run env of
             Throws e \<Rightarrow> (Inl e, c2)
           | Returns results \<Rightarrow>
               (let info = read_project_info json_parse results in
                case get_prop info ''success'' of
                  Inl e \<Rightarrow> (Inl e, c2)
                | Inr ok \<Rightarrow>
                    if \<not> truthy ok then
                      (case close env 0 of
                         Throws e \<Rightarrow> (Inl e, c2 @ [Close])
                       | Returns _ \<Rightarrow>
                           (Inr \<lparr>http_status = 400,
                                 body = ErrorBody
                                   (or_default (projr (get_prop info ''error''))
                                      (JString ''Failed to clone repository''))\<rparr>,
                            c2 @ [Close]))
                    else
                      (let wants_install = truthy (projr (get_prop info ''hasPackageJson''));
                           c3 = c2 @ (if wants_install then [RunInstall (projectName r)] else [])
                       in case (if wants_install then install_run env else Returns ()) of
                            Throws e \<Rightarrow> (Inl e, c3)
                          | Returns _ \<Rightarrow>
                              (case startDevServer env (projectName r) info of
                                 (server, c4) \<Rightarrow>
                                   (Inr \<lparr>http_status = 200,
                                         body = SuccessBody
                                           \<lparr>success = True,
                                            body_sandboxId = targetSandboxId,
                                            body_projectName = projectName r,
                                            projectInfo = info,
                                            serverUrl = server,
                                            message = ''Repository '' @ [CHR 0x27] @ gitUrl r @
                                                      [CHR 0x27] @ '' cloned successfully!''\<rparr>\<rparr>,
                                    c3 @ c4))))))"

text \<open>The inner \<^verbatim>\<open>try\<close> with its \<^verbatim>\<open>catch\<close>, which closes the sandbox and answers 500; an
  exception of that \<^verbatim>\<open>close\<close> reaches the outer \<^verbatim>\<open>catch\<close>.\<close>

definition clone_in_sandbox ::
  "(string \<Rightarrow> json option) \<Rightarrow> environment \<Rightarrow> clone_request \<Rightarrow> string
     \<Rightarrow> response \<times> remote_call list" where
  "clone_in_sandbox json_parse env r targetSandboxId =
     (case clone_steps json_parse env r targetSandboxId of
        (Inr resp, calls) \<Rightarrow> (resp, calls)
      | (Inl e, calls) \<Rightarrow>
          (case close env (count_list calls Close) of
             Throws e2 \<Rightarrow> (error_response 500 ''Internal server error'', calls @ [Close])
           | Returns _ \<Rightarrow>
               (error_response 500 (''Clone operation failed: '' @ error_message e),
                calls @ [Close])))"

text \<open>The id the handler connects to: \<^verbatim>\<open>sandboxId\<close> of the request when it is truthy.\<close>

definition wanted_sandbox :: "clone_request \<Rightarrow> string option" where
  "wanted_sandbox r = (if truthy_string (given_sandboxId r) then given_sandboxId r else None)"

text \<open>\<^verbatim>\<open>POST\<close>: the response and the calls made to the remote sandbox.\<close>

definition POST ::
  "(string \<Rightarrow> bool) \<Rightarrow> (string \<Rightarrow> json option) \<Rightarrow> environment
     \<Rightarrow> response \<times> remote_call list" where
  "POST isUrl json_parse env =
     (case session env of
        Throws e \<Rightarrow> (error_response 500 ''Internal server error'', [])
      | Returns False \<Rightarrow> (error_response 401 ''Unauthorized'', [])
      | Returns True \<Rightarrow>
          (case request_json env of
             Throws e \<Rightarrow> (error_response 500 ''Internal server error'', [])
           | Returns json_body \<Rightarrow>
               (case cloneSchema_parse isUrl json_body of
                  Inl (ZodError issues) \<Rightarrow>
                    (\<lparr>http_status = 400, body = InvalidRequest issues\<rparr>, [])
                | Inr r \<Rightarrow>
                    (let wanted = wanted_sandbox r
                     in case create env wanted of
                          Throws e \<Rightarrow>
                            (error_response 500 ''Internal server error'', [Create wanted])
                        | Returns None \<Rightarrow>
                            (if wanted = None
                             then (error_response 500 ''Internal server error'', [Create wanted])
                             else (error_response 500 ''Failed to create or connect to sandbox'',
                                   [Create wanted]))
                        | Returns (Some new_id) \<Rightarrow>
                            (let targetSandboxId = (case wanted of Some w \<Rightarrow> w | None \<Rightarrow> new_id)
                             in case clone_in_sandbox json_parse env r targetSandboxId of
                                  (resp, calls) \<Rightarrow> (resp, Create wanted # calls))))))"

section \<open>Predicates and sample inputs of the properties\<close>

text \<open>The bound of the data model on one record: \<^verbatim>\<open>autoStopAt\<close> is present and at least
  \<^verbatim>\<open>lastActiveAt\<close> plus the grace window.\<close>

definition grace_ok :: "sandbox \<Rightarrow> bool" where
  "grace_ok r =
     (case autoStopAt r of Some a \<Rightarrow> lastActiveAt r + grace_window \<le> a | None \<Rightarrow> False)"

text \<open>A store with the one record that \<^verbatim>\<open>createSandbox\<close> writes at time 1000.\<close>

definition sample_created :: database where
  "sample_created =
     snd (createSandbox 1000 7 None ''sbx-1'' ''demo'' (Some ''https://3000-sbx-1.e2b.dev'') None
            empty_database)"

text \<open>That store after \<^verbatim>\<open>updateSandboxStatus\<close> at time 2000.\<close>

definition sample_status_set :: database where
  "sample_status_set = snd (updateSandboxStatus 2000 ''sbx-1'' Running None sample_created)"

text \<open>A store with two running records, whose deadlines are 4999 and 5001, a stopped
  record long past its deadline, and a snapshot and a chat history of the first.\<close>

definition sample_store :: database where
  "sample_store =
     \<lparr>sandboxes =
        [\<lparr>doc_id = 0, userId = 7, projectId = None, sandboxId = ''sbx-a'', name = ''a'',
          url = None, status = Running, startedAt = 0, lastActiveAt = 0,
          autoStopAt = Some 4999, isTemporary = False\<rparr>,
         \<lparr>doc_id = 1, userId = 7, projectId = None, sandboxId = ''sbx-b'', name = ''b'',
          url = None, status = Running, startedAt = 0, lastActiveAt = 0,
          autoStopAt = Some 5001, isTemporary = False\<rparr>,
         \<lparr>doc_id = 2, userId = 8, projectId = None, sandboxId = ''sbx-c'', name = ''c'',
          url = None, status = Stopped, startedAt = 0, lastActiveAt = 0,
          autoStopAt = Some 10, isTemporary = True\<rparr>],
      fileSnapshots = [\<lparr>snapshot_id = 3, snapshot_sandboxId = 0\<rparr>],
      chatHistories = [\<lparr>chat_id = 4, chat_sandboxId = Some 0\<rparr>],
      next_id = 5\<rparr>"


text \<open>The two forms of the address of a repository, and the owner and name that
  \<^verbatim>\<open>parseGitUrl\<close> extracts from an address.\<close>

definition https_form :: "string \<Rightarrow> string \<Rightarrow> string" where
  "https_form own nm = ''https://github.com/'' @ own @ ''/'' @ nm"

definition ssh_form :: "string \<Rightarrow> string \<Rightarrow> string" where
  "ssh_form own nm = ''git@github.com:'' @ own @ ''/'' @ nm"

definition parsed_repo :: "string \<Rightarrow> (string \<times> string) option" where
  "parsed_repo u = map_option (\<lambda>i. (info_owner i, info_name i)) (parseGitUrl u)"

text \<open>A world in which the API shows the repository \<^verbatim>\<open>acme/widgets\<close> to a request that
  carries the token \<^verbatim>\<open>secret\<close>, and answers 404 to any other request for it.\<close>

definition sample_api :: fetch where
  "sample_api req =
     (if request_url req = ''https://api.github.com/repos/acme/widgets'' then
        (if (''Authorization'', ''token secret'') \<in> set (request_headers req)
         then Inr \<lparr>response_status = 200,
                   response_json = Inr (JObject [(''private'', JBool True),
                                                 (''default_branch'', JString ''develop'')])\<rparr>
         else Inr \<lparr>response_status = 404, response_json = Inr (JObject [])\<rparr>)
      else Inl (ErrorObject ''fetch failed''))"

text \<open>
  Sample inputs of the clone route. The URL parser and \<^verbatim>\<open>JSON.parse\<close> are given on the
  strings the samples use: both addresses below parse as URLs, the line is the JSON
  text of an object with the two members that the handler reads, and \<^verbatim>\<open>null\<close> is the
  JSON text of \<^verbatim>\<open>null\<close>.
\<close>

definition sample_isUrl :: "string \<Rightarrow> bool" where
  "sample_isUrl s = (s \<in> {''https://github.com/acme/widgets'', ''https://example.com/archive''})"

definition sample_report_line :: string where
  "sample_report_line =
     ''{'' @ [CHR 0x22] @ ''success'' @ [CHR 0x22] @ '': true, '' @
     [CHR 0x22] @ ''hasPackageJson'' @ [CHR 0x22] @ '': true}''"

definition sample_json_parse :: "string \<Rightarrow> json option" where
  "sample_json_parse s =
     (if s = sample_report_line
      then Some (JObject [(''success'', JBool True), (''hasPackageJson'', JBool True)])
      else if s = ''null'' then Some JNull
      else None)"

text \<open>A session; a request for \<^verbatim>\<open>https://github.com/acme/widgets\<close> as project
  \<^verbatim>\<open>widgets\<close>; a sandbox \<^verbatim>\<open>sbx-1\<close> in which every call returns: the clone exits with
  code zero, the inspection reports a project with a package manifest, and the manifest
  declares the scripts \<^verbatim>\<open>build\<close> and \<^verbatim>\<open>test\<close> only.\<close>

definition sample_env :: environment where
  "sample_env =
     \<lparr>session = Returns True,
      request_json = Returns (JObject [(''gitUrl'', JString ''https://github.com/acme/widgets''),
                                       (''projectName'', JString ''widgets'')]),
      create = (\<lambda>wanted. Returns (Some ''sbx-1'')),
      clone_run = Returns (CloneExit 0),
      check_run = Returns [Some sample_report_line],
      install_run = Returns (),
      launch_run = Returns (),
      package_manifest = Scripts [''build'', ''test''],
      server_process = Exited,
      getHostname = (\<lambda>port. Returns (string_of_nat port @ ''-sbx-1.e2b.dev'')),
      close = (\<lambda>n. Returns ())\<rparr>"



definition sample_env_check_throws :: environment where
  "sample_env_check_throws =
     sample_env\<lparr>check_run := Throws (ErrorObject ''sandbox timeout'')\<rparr>"


definition sample_env_no_result :: environment where
  "sample_env_no_result = sample_env\<lparr>check_run := Returns []\<rparr>"


text \<open>The same with an inspection whose output is no JSON text, and with a launch call
  that throws.\<close>

definition sample_env_unparsed :: environment where
  "sample_env_unparsed = sample_env\<lparr>check_run := Returns [Some ''Traceback''] \<rparr>"

definition sample_env_launch_throws :: environment where
  "sample_env_launch_throws = sample_env\<lparr>launch_run := Throws (ErrorObject ''timeout'')\<rparr>"

text \<open>The same with an inspection whose output is the text \<^verbatim>\<open>null\<close>.\<close>

definition sample_env_null :: environment where
  "sample_env_null = sample_env\<lparr>check_run := Returns [Some ''null'']\<rparr>"

text \<open>The validated data of the sample request.\<close>

definition sample_request :: clone_request where
  "sample_request =
     \<lparr>gitUrl = ''https://github.com/acme/widgets'', branch = ''main'',
      projectName = ''widgets'', description = None, isPrivate = False,
      accessToken = None, given_sandboxId = None\<rparr>"

section \<open>Properties of the record store\<close>

lemma first_by_sandbox_id_None:
  "first_by_sandbox_id sid db = None \<longleftrightarrow> (\<forall>r \<in> set (sandboxes db). sandboxId r \<noteq> sid)"
  by (auto simp: first_by_sandbox_id_def find_None_iff)

lemma first_by_sandbox_id_Some:
  "first_by_sandbox_id sid db = Some sb \<Longrightarrow> sb \<in> set (sandboxes db) \<and> sandboxId sb = sid"
  by (auto simp: first_by_sandbox_id_def find_Some_iff)

lemma sandboxes_patch:
  "sandboxes (patch_sandbox i f db) = map (\<lambda>r. if doc_id r = i then f r else r) (sandboxes db)"
  by (simp add: patch_sandbox_def)

text \<open>
  C1, as stated, fails. A record is created at time 1000, so its deadline is 901000;
  \<^verbatim>\<open>updateSandboxStatus\<close> at time 2000 sets \<^verbatim>\<open>lastActiveAt\<close> to 2000 and leaves the
  deadline, which is then less than \<^verbatim>\<open>lastActiveAt\<close> plus the grace window.
\<close>

theorem setStatus_breaks_grace_bound:
  "\<not> list_all grace_ok
       (sandboxes (snd (updateSandboxStatus 2000 ''sbx-1'' Running None sample_created)))"
  by (simp add: sample_created_def createSandbox_def empty_database_def updateSandboxStatus_def
      first_by_sandbox_id_def patch_sandbox_def grace_window_def grace_ok_def Let_def)

text \<open>
  C1, amended. \<^verbatim>\<open>createSandbox\<close> appends a record with \<^verbatim>\<open>lastActiveAt\<close> the time of the
  call and \<^verbatim>\<open>autoStopAt\<close> that time plus the grace window. \<^verbatim>\<open>updateSandboxActivity\<close>
  writes these two values together on the record it finds and leaves the other records
  as they are; in both cases the record written satisfies the bound (\<^verbatim>\<open>autoStopAt\<close> at
  least \<^verbatim>\<open>lastActiveAt\<close> plus the grace window) whatever was stored, so the bound holds
  on the whole store after a touch when it held on the other records, and after a create
  when it held before. \<^verbatim>\<open>updateSandboxStatus\<close> and \<^verbatim>\<open>stopSandbox\<close> set \<^verbatim>\<open>lastActiveAt\<close> of
  the record they find to the time of the call and change no \<^verbatim>\<open>autoStopAt\<close> of the store:
  afterwards that record satisfies the bound exactly when its stored \<^verbatim>\<open>autoStopAt\<close> is at
  least the time of the call plus the grace window.
\<close>

theorem grace_bound_rederivation:
  "(\<exists>doc. sandboxes (snd (createSandbox now uid pid sid nm u tmp db)) = sandboxes db @ [doc] \<and>
          lastActiveAt doc = now \<and> autoStopAt doc = Some (now + grace_window) \<and>
          grace_ok doc) \<and>
   (list_all grace_ok (sandboxes db) \<longrightarrow>
      list_all grace_ok (sandboxes (snd (createSandbox now uid pid sid nm u tmp db)))) \<and>
   (\<forall>sb. first_by_sandbox_id sid db = Some sb \<longrightarrow>
      sb \<in> set (sandboxes db) \<and>
      list_all2
        (\<lambda>r r'. if doc_id r = doc_id sb
                 then r' = r\<lparr>lastActiveAt := now, autoStopAt := Some (now + grace_window)\<rparr> \<and>
                      grace_ok r'
                 else r' = r)
        (sandboxes db) (sandboxes (snd (updateSandboxActivity now sid db))) \<and>
      ((\<forall>r \<in> set (sandboxes db). doc_id r \<noteq> doc_id sb \<longrightarrow> grace_ok r) \<longrightarrow>
         list_all grace_ok (sandboxes (snd (updateSandboxActivity now sid db)))) \<and>
      list_all2
        (\<lambda>r r'. if doc_id r = doc_id sb
                 then r' = r\<lparr>status := st, url := u, lastActiveAt := now\<rparr> \<and>
                      (grace_ok r' \<longleftrightarrow> (\<exists>a. autoStopAt r = Some a \<and> now + grace_window \<le> a))
                 else r' = r)
        (sandboxes db) (sandboxes (snd (updateSandboxStatus now sid st u db))) \<and>
      list_all2
        (\<lambda>r r'. if doc_id r = doc_id sb
                 then r' = r\<lparr>status := Stopped, lastActiveAt := now\<rparr> \<and>
                      (grace_ok r' \<longleftrightarrow> (\<exists>a. autoStopAt r = Some a \<and> now + grace_window \<le> a))
                 else r' = r)
        (sandboxes db) (sandboxes (snd (stopSandbox now sid db)))) \<and>
   map autoStopAt (sandboxes (snd (updateSandboxStatus now sid st u db))) =
     map autoStopAt (sandboxes db) \<and>
   map autoStopAt (sandboxes (snd (stopSandbox now sid db))) = map autoStopAt (sandboxes db)"
proof -
  have created:
    "\<exists>doc. sandboxes (snd (createSandbox now uid pid sid nm u tmp db)) = sandboxes db @ [doc] \<and>
          lastActiveAt doc = now \<and> autoStopAt doc = Some (now + grace_window) \<and> grace_ok doc"
    by (simp add: createSandbox_def Let_def grace_ok_def)
  have create_keeps:
    "list_all grace_ok (sandboxes (snd (createSandbox now uid pid sid nm u tmp db)))"
    if "list_all grace_ok (sandboxes db)"
    using that by (simp add: createSandbox_def Let_def grace_ok_def)
  have found: "sb \<in> set (sandboxes db)" if "first_by_sandbox_id sid db = Some sb" for sb
    using that by (simp add: first_by_sandbox_id_Some)
  have touched:
    "list_all2
        (\<lambda>r r'. if doc_id r = doc_id sb
                 then r' = r\<lparr>lastActiveAt := now, autoStopAt := Some (now + grace_window)\<rparr> \<and>
                      grace_ok r'
                 else r' = r)
        (sandboxes db) (sandboxes (snd (updateSandboxActivity now sid db)))"
    if "first_by_sandbox_id sid db = Some sb" for sb
    using that
    by (simp add: updateSandboxActivity_def Let_def sandboxes_patch list_all2_map2
        list_all2_same grace_ok_def)
  have touch_restores:
    "list_all grace_ok (sandboxes (snd (updateSandboxActivity now sid db)))"
    if "first_by_sandbox_id sid db = Some sb"
      and "\<forall>r \<in> set (sandboxes db). doc_id r \<noteq> doc_id sb \<longrightarrow> grace_ok r" for sb
    using that
    by (auto simp: updateSandboxActivity_def Let_def sandboxes_patch list_all_iff grace_ok_def)
  have status_set:
    "list_all2
        (\<lambda>r r'. if doc_id r = doc_id sb
                 then r' = r\<lparr>status := st, url := u, lastActiveAt := now\<rparr> \<and>
                      (grace_ok r' \<longleftrightarrow> (\<exists>a. autoStopAt r = Some a \<and> now + grace_window \<le> a))
                 else r' = r)
        (sandboxes db) (sandboxes (snd (updateSandboxStatus now sid st u db)))"
    if "first_by_sandbox_id sid db = Some sb" for sb
    using that
    by (auto simp: updateSandboxStatus_def sandboxes_patch list_all2_map2 list_all2_same
        grace_ok_def split: option.splits)
  have stopped:
    "list_all2
        (\<lambda>r r'. if doc_id r = doc_id sb
                 then r' = r\<lparr>status := Stopped, lastActiveAt := now\<rparr> \<and>
                      (grace_ok r' \<longleftrightarrow> (\<exists>a. autoStopAt r = Some a \<and> now + grace_window \<le> a))
                 else r' = r)
        (sandboxes db) (sandboxes (snd (stopSandbox now sid db)))"
    if "first_by_sandbox_id sid db = Some sb" for sb
    using that
    by (auto simp: stopSandbox_def sandboxes_patch list_all2_map2 list_all2_same
        grace_ok_def split: option.splits)
  have status_deadline:
    "map autoStopAt (sandboxes (snd (updateSandboxStatus now sid st u db))) =
       map autoStopAt (sandboxes db)"
    by (auto simp: updateSandboxStatus_def sandboxes_patch split: option.splits)
  have stop_deadline:
    "map autoStopAt (sandboxes (snd (stopSandbox now sid db))) = map autoStopAt (sandboxes db)"
    by (auto simp: stopSandbox_def sandboxes_patch split: option.splits)
  from created create_keeps found touched touch_restores status_set stopped
    status_deadline stop_deadline
  show ?thesis by (intro conjI allI impI) blast+
qed

text \<open>The amended C1 on the store of one record created at time 1000: a status set
  at time 2000 leaves the deadline 901000 and breaks the bound, and a touch at time 3000
  of the store it leaves restores it.\<close>

theorem grace_bound_rederivation_witness:
  "list_all grace_ok (sandboxes sample_created) \<and>
   first_by_sandbox_id ''sbx-1'' sample_created = Some (hd (sandboxes sample_created)) \<and>
   map autoStopAt (sandboxes sample_status_set) = [Some 901000] \<and>
   map lastActiveAt (sandboxes sample_status_set) = [2000] \<and>
   \<not> list_all grace_ok (sandboxes sample_status_set) \<and>
   first_by_sandbox_id ''sbx-1'' sample_status_set = Some (hd (sandboxes sample_status_set)) \<and>
   map lastActiveAt (sandboxes (snd (updateSandboxActivity 3000 ''sbx-1'' sample_status_set)))
     = [3000] \<and>
   map autoStopAt (sandboxes (snd (updateSandboxActivity 3000 ''sbx-1'' sample_status_set)))
     = [Some 903000] \<and>
   list_all grace_ok (sandboxes (snd (updateSandboxActivity 3000 ''sbx-1'' sample_status_set)))"
proof -
  have created: "sandboxes sample_created =
      [\<lparr>doc_id = 0, userId = 7, projectId = None, sandboxId = ''sbx-1'', name = ''demo'',
        url = Some ''https://3000-sbx-1.e2b.dev'', status = Creating, startedAt = 1000,
        lastActiveAt = 1000, autoStopAt = Some 901000, isTemporary = False\<rparr>]"
    by (simp add: sample_created_def createSandbox_def empty_database_def grace_window_def
        Let_def)
  have status_set: "sandboxes sample_status_set =
      [\<lparr>doc_id = 0, userId = 7, projectId = None, sandboxId = ''sbx-1'', name = ''demo'',
        url = None, status = Running, startedAt = 1000,
        lastActiveAt = 2000, autoStopAt = Some 901000, isTemporary = False\<rparr>]"
    by (simp add: sample_status_set_def updateSandboxStatus_def first_by_sandbox_id_def
        sandboxes_patch created)
  have f1: "first_by_sandbox_id ''sbx-1'' sample_created = Some (hd (sandboxes sample_created))"
    by (simp add: first_by_sandbox_id_def created)
  have f2: "first_by_sandbox_id ''sbx-1'' sample_status_set =
      Some (hd (sandboxes sample_status_set))"
    by (simp add: first_by_sandbox_id_def status_set)
  have others: "\<forall>r \<in> set (sandboxes sample_status_set).
      doc_id r \<noteq> doc_id (hd (sandboxes sample_status_set)) \<longrightarrow> grace_ok r"
    by (simp add: status_set)
  from grace_bound_rederivation
    [where db = sample_status_set and now = 3000 and sid = "''sbx-1''" and uid = 7
       and pid = None and nm = "''demo''" and u = None and tmp = None and st = Running]
    f2 others
  have restored:
    "list_all grace_ok (sandboxes (snd (updateSandboxActivity 3000 ''sbx-1'' sample_status_set)))"
    by blast
  have touched: "sandboxes (snd (updateSandboxActivity 3000 ''sbx-1'' sample_status_set)) =
      [\<lparr>doc_id = 0, userId = 7, projectId = None, sandboxId = ''sbx-1'', name = ''demo'',
        url = None, status = Running, startedAt = 1000,
        lastActiveAt = 3000, autoStopAt = Some 903000, isTemporary = False\<rparr>]"
    by (simp add: updateSandboxActivity_def first_by_sandbox_id_def sandboxes_patch status_set
        grace_window_def Let_def)
  from restored f1 f2 show ?thesis
    by (simp add: created status_set touched grace_ok_def grace_window_def)
qed

text \<open>
  C2. For every time \<open>now\<close>, \<^verbatim>\<open>getSandboxesToAutoStop\<close> returns records of the table, in
  the table's order, all of them running; a record with a deadline is returned exactly
  when it is in the table, is running and its deadline is less than \<open>now\<close>. So no record
  whose status is not running is returned, whatever its deadline, and this holds however
  the database compares an absent deadline.
\<close>

theorem getSandboxesToAutoStop_exact:
  "getSandboxesToAutoStop absent_lt now db =
     filter (\<lambda>r. r \<in> set (getSandboxesToAutoStop absent_lt now db)) (sandboxes db) \<and>
   (\<forall>r. r \<in> set (getSandboxesToAutoStop absent_lt now db) \<longrightarrow>
        r \<in> set (sandboxes db) \<and> status r = Running) \<and>
   (\<forall>r a. autoStopAt r = Some a \<longrightarrow>
      (r \<in> set (getSandboxesToAutoStop absent_lt now db) \<longleftrightarrow>
       r \<in> set (sandboxes db) \<and> status r = Running \<and> a < now))"
proof -
  have exact: "getSandboxesToAutoStop absent_lt now db =
     filter (\<lambda>r. r \<in> set (getSandboxesToAutoStop absent_lt now db)) (sandboxes db)"
    unfolding getSandboxesToAutoStop_def by (auto intro: filter_cong)
  have running: "\<forall>r. r \<in> set (getSandboxesToAutoStop absent_lt now db) \<longrightarrow>
        r \<in> set (sandboxes db) \<and> status r = Running"
    by (simp add: getSandboxesToAutoStop_def)
  have expired: "\<forall>r a. autoStopAt r = Some a \<longrightarrow>
      (r \<in> set (getSandboxesToAutoStop absent_lt now db) \<longleftrightarrow>
       r \<in> set (sandboxes db) \<and> status r = Running \<and> a < now)"
    by (auto simp: getSandboxesToAutoStop_def autoStopAt_lt_def)
  from exact running expired show ?thesis by blast
qed

text \<open>C2 on the sample store at time 5000: of the running records with deadlines 4999
  and 5001 the first is returned; the stopped record with deadline 10 is not.\<close>

theorem getSandboxesToAutoStop_exact_witness:
  "getSandboxesToAutoStop False 5000 sample_store = [hd (sandboxes sample_store)] \<and>
   status (sandboxes sample_store ! 2) = Stopped \<and>
   autoStopAt (sandboxes sample_store ! 2) = Some 10 \<and>
   sandboxes sample_store ! 2 \<notin> set (getSandboxesToAutoStop False 5000 sample_store) \<and>
   sandboxes sample_store ! 1 \<notin> set (getSandboxesToAutoStop False 5000 sample_store)"
  using getSandboxesToAutoStop_exact [where absent_lt = False and now = 5000 and db = sample_store]
  by (simp add: sample_store_def getSandboxesToAutoStop_def autoStopAt_lt_def)

text \<open>
  C5. The record that \<^verbatim>\<open>createSandbox\<close> appends, and every record with the id that
  \<^verbatim>\<open>updateSandboxActivity\<close> found and returns (there is one), has \<^verbatim>\<open>lastActiveAt\<close> the
  time of the call and \<^verbatim>\<open>autoStopAt\<close> that time plus the grace window, so their difference
  is the grace window, which is 900000 milliseconds.
\<close>

theorem create_touch_grace_window:
  "(case createSandbox now uid pid sid nm u tmp db of
      (i, db') \<Rightarrow>
        (\<exists>doc. sandboxes db' = sandboxes db @ [doc] \<and> doc_id doc = i \<and> sandboxId doc = sid \<and>
               lastActiveAt doc = now \<and> autoStopAt doc = Some (now + grace_window) \<and>
               the (autoStopAt doc) - lastActiveAt doc = grace_window)) \<and>
   (\<forall>sb. first_by_sandbox_id sid db = Some sb \<longrightarrow>
      fst (updateSandboxActivity now sid db) = Inr (doc_id sb) \<and>
      (\<exists>r \<in> set (sandboxes (snd (updateSandboxActivity now sid db))). doc_id r = doc_id sb) \<and>
      (\<forall>r \<in> set (sandboxes (snd (updateSandboxActivity now sid db))).
         doc_id r = doc_id sb \<longrightarrow>
           lastActiveAt r = now \<and> autoStopAt r = Some (now + grace_window) \<and>
           the (autoStopAt r) - lastActiveAt r = grace_window)) \<and>
   grace_window = 900000"
proof (intro conjI allI impI)
  show "case createSandbox now uid pid sid nm u tmp db of
      (i, db') \<Rightarrow>
        (\<exists>doc. sandboxes db' = sandboxes db @ [doc] \<and> doc_id doc = i \<and> sandboxId doc = sid \<and>
               lastActiveAt doc = now \<and> autoStopAt doc = Some (now + grace_window) \<and>
               the (autoStopAt doc) - lastActiveAt doc = grace_window)"
    by (simp add: createSandbox_def Let_def)
next
  fix sb assume found: "first_by_sandbox_id sid db = Some sb"
  then show "fst (updateSandboxActivity now sid db) = Inr (doc_id sb)"
    by (simp add: updateSandboxActivity_def Let_def)
  from found have "sb \<in> set (sandboxes db)" by (simp add: first_by_sandbox_id_Some)
  then have "sb\<lparr>lastActiveAt := now, autoStopAt := Some (now + grace_window)\<rparr>
      \<in> set (sandboxes (snd (updateSandboxActivity now sid db)))"
    using found by (force simp: updateSandboxActivity_def Let_def sandboxes_patch image_iff)
  then show "\<exists>r \<in> set (sandboxes (snd (updateSandboxActivity now sid db))). doc_id r = doc_id sb"
    by (rule rev_bexI) simp
  show "\<forall>r \<in> set (sandboxes (snd (updateSandboxActivity now sid db))).
         doc_id r = doc_id sb \<longrightarrow>
           lastActiveAt r = now \<and> autoStopAt r = Some (now + grace_window) \<and>
           the (autoStopAt r) - lastActiveAt r = grace_window"
    using found by (auto simp: updateSandboxActivity_def Let_def sandboxes_patch)
next
  show "grace_window = 900000" by (simp add: grace_window_def)
qed

text \<open>C5 on the sample store: the record of \<^verbatim>\<open>sbx-b\<close>, touched at time 7000, has the
  deadline 907000.\<close>

theorem create_touch_grace_window_witness:
  "first_by_sandbox_id ''sbx-b'' sample_store = Some (sandboxes sample_store ! 1) \<and>
   fst (updateSandboxActivity 7000 ''sbx-b'' sample_store) = Inr 1 \<and>
   map lastActiveAt (sandboxes (snd (updateSandboxActivity 7000 ''sbx-b'' sample_store)))
     = [0, 7000, 0] \<and>
   map autoStopAt (sandboxes (snd (updateSandboxActivity 7000 ''sbx-b'' sample_store)))
     = [Some 4999, Some 907000, Some 10]"
  using create_touch_grace_window
    [where db = sample_store and now = 7000 and sid = "''sbx-b''" and uid = 7 and pid = None
       and nm = "''b''" and u = None and tmp = None]
  by (simp add: sample_store_def updateSandboxActivity_def first_by_sandbox_id_def
      patch_sandbox_def grace_window_def Let_def)

text \<open>
  C7. When no record of the table has the given \<^verbatim>\<open>sandboxId\<close>, each of
  \<^verbatim>\<open>updateSandboxStatus\<close>, \<^verbatim>\<open>updateSandboxActivity\<close> and \<^verbatim>\<open>deleteSandbox\<close> throws the error
  \<^verbatim>\<open>Sandbox not found\<close> and leaves the database as it was.
\<close>

theorem not_found_leaves_store:
  assumes "\<forall>r \<in> set (sandboxes db). sandboxId r \<noteq> sid"
  shows "updateSandboxStatus now sid st u db = (Inl SandboxNotFound, db) \<and>
         updateSandboxActivity now sid db = (Inl SandboxNotFound, db) \<and>
         deleteSandbox sid db = (Inl SandboxNotFound, db)"
proof -
  from assms have "first_by_sandbox_id sid db = None"
    by (simp add: first_by_sandbox_id_None)
  then show ?thesis
    by (simp add: updateSandboxStatus_def updateSandboxActivity_def deleteSandbox_def)
qed

text \<open>C7 on the sample store, which has no record of \<^verbatim>\<open>sbx-missing\<close>.\<close>

theorem not_found_leaves_store_witness:
  "list_all (\<lambda>r. sandboxId r \<noteq> ''sbx-missing'') (sandboxes sample_store) \<and>
   updateSandboxStatus 7000 ''sbx-missing'' Stopped None sample_store
     = (Inl SandboxNotFound, sample_store) \<and>
   updateSandboxActivity 7000 ''sbx-missing'' sample_store = (Inl SandboxNotFound, sample_store) \<and>
   deleteSandbox ''sbx-missing'' sample_store = (Inl SandboxNotFound, sample_store)"
proof -
  have absent: "\<forall>r \<in> set (sandboxes sample_store). sandboxId r \<noteq> ''sbx-missing''"
    by (simp add: sample_store_def)
  from not_found_leaves_store [OF absent] absent show ?thesis
    by (simp add: list_all_iff)
qed

text \<open>
  C9. When \<^verbatim>\<open>updateSandboxStatus\<close> finds a record, every record with that id gets the
  \<^verbatim>\<open>url\<close> argument as it is (so no \<^verbatim>\<open>url\<close> when the argument is omitted, whatever was
  stored), the status and the time of the call as \<^verbatim>\<open>lastActiveAt\<close>, and keeps all other
  fields; the other records and the other tables are as before.
\<close>

theorem updateSandboxStatus_frame:
  assumes "first_by_sandbox_id sid db = Some sb"
  shows "fst (updateSandboxStatus now sid st u db) = Inr (doc_id sb) \<and>
         (snd (updateSandboxStatus now sid st u db))\<lparr>sandboxes := sandboxes db\<rparr> = db \<and>
         list_all2
           (\<lambda>r r'. if doc_id r = doc_id sb
                    then url r' = u \<and> status r' = st \<and> lastActiveAt r' = now \<and>
                         r'\<lparr>status := status r, url := url r, lastActiveAt := lastActiveAt r\<rparr> = r
                    else r' = r)
           (sandboxes db) (sandboxes (snd (updateSandboxStatus now sid st u db)))"
  using assms
  by (simp add: updateSandboxStatus_def patch_sandbox_def list_all2_map2 list_all2_same)

text \<open>C9 on the store of one record with a stored \<^verbatim>\<open>url\<close>: after a call without
  \<^verbatim>\<open>url\<close> the record has none.\<close>

theorem updateSandboxStatus_frame_witness:
  "first_by_sandbox_id ''sbx-1'' sample_created = Some (hd (sandboxes sample_created)) \<and>
   map url (sandboxes sample_created) = [Some ''https://3000-sbx-1.e2b.dev''] \<and>
   map url (sandboxes (snd (updateSandboxStatus 2000 ''sbx-1'' Running None sample_created)))
     = [None] \<and>
   map autoStopAt (sandboxes (snd (updateSandboxStatus 2000 ''sbx-1'' Running None sample_created)))
     = [Some 901000]"
proof -
  have found: "first_by_sandbox_id ''sbx-1'' sample_created = Some (hd (sandboxes sample_created))"
    by (simp add: sample_created_def createSandbox_def empty_database_def
        first_by_sandbox_id_def Let_def)
  from updateSandboxStatus_frame [OF found, where now = 2000 and st = Running and u = None] found
  show ?thesis
    by (simp add: sample_created_def createSandbox_def empty_database_def updateSandboxStatus_def
        first_by_sandbox_id_def patch_sandbox_def grace_window_def Let_def)
qed

section \<open>Properties of the Git URL utilities\<close>

lemma match_repo_at_form:
  assumes "own \<noteq> []" "CHR ''/'' \<notin> set own" "nm \<noteq> []" "CHR ''/'' \<notin> set nm" "CHR ''?'' \<notin> set nm"
  shows "match_repo_at pre (pre @ own @ ''/'' @ nm) = Some (own, nm)"
proof -
  have tw: "takeWhile (\<lambda>c. c \<noteq> CHR ''/'') (own @ CHR ''/'' # nm) = own"
    using assms(2) by (subst takeWhile_append2) auto
  have dw: "dropWhile (\<lambda>c. c \<noteq> CHR ''/'') (own @ CHR ''/'' # nm) = CHR ''/'' # nm"
    using assms(2) by (subst dropWhile_append2) auto
  have nmw: "takeWhile (\<lambda>c. c \<noteq> CHR ''/'' \<and> c \<noteq> CHR ''?'') nm = nm"
    using assms(4,5) by (auto simp: takeWhile_eq_all_conv)
  show ?thesis
    using assms(1,3) by (simp add: match_repo_at_def startsWith_def tw dw nmw Let_def)
qed

lemma search_repo_at_start:
  "match_repo_at pre s = Some m \<Longrightarrow> search_repo pre s = Some m"
  by (cases s) auto

lemma match_repo_at_prefix:
  "match_repo_at pre s = Some m \<Longrightarrow> \<exists>b. s = pre @ b"
  by (auto simp: match_repo_at_def startsWith_def split: if_splits intro: exI[of _ "drop (length pre) s"])
     (metis append_take_drop_id)

lemma search_repo_slashes:
  "search_repo pre s = Some m \<Longrightarrow>
     length (filter (\<lambda>c. c = CHR ''/'') pre) \<le> length (filter (\<lambda>c. c = CHR ''/'') s)"
proof (induction s)
  case Nil
  then show ?case by (auto dest: match_repo_at_prefix)
next
  case (Cons c cs)
  show ?case
  proof (cases "match_repo_at pre (c # cs)")
    case None
    with Cons show ?thesis by (auto simp: le_Suc_eq)
  next
    case (Some m')
    then obtain b where "c # cs = pre @ b" by (auto dest: match_repo_at_prefix)
    then show ?thesis by (metis filter_append length_append le_add1)
  qed
qed

lemma endsWith_append: "endsWith (u @ suf) suf"
  by (simp add: endsWith_def)

lemma endsWith_iff: "endsWith s suf \<longleftrightarrow> (\<exists>a. s = a @ suf)"
proof
  assume "endsWith s suf"
  then have "s = take (length s - length suf) s @ suf"
    by (metis append_take_drop_id endsWith_def)
  then show "\<exists>a. s = a @ suf" ..
next
  assume "\<exists>a. s = a @ suf"
  then show "endsWith s suf" by (auto simp: endsWith_def)
qed

lemma not_endsWith_after_slash:
  assumes "nm \<noteq> []" "\<not> endsWith nm ''.git''"
  shows "\<not> endsWith (q @ CHR ''/'' # nm) ''.git''"
proof
  assume e: "endsWith (q @ CHR ''/'' # nm) ''.git''"
  show False
  proof (cases "4 \<le> length nm")
    case True
    have four: "length ''.git'' = 4" by simp
    from True have l: "length (q @ CHR ''/'' # nm) - 4 = length q + Suc (length nm - 4)"
      by simp
    have d: "drop (length q + Suc (length nm - 4)) (q @ CHR ''/'' # nm) = drop (length nm - 4) nm"
      by simp
    from e have "drop (length (q @ CHR ''/'' # nm) - 4) (q @ CHR ''/'' # nm) = ''.git''"
      unfolding endsWith_def four by blast
    then have "drop (length nm - 4) nm = ''.git''"
      unfolding l d .
    with True assms(2) show False unfolding endsWith_def four by simp
  next
    case False
    have four: "length ''.git'' = 4" by simp
    from False have k: "length (q @ CHR ''/'' # nm) - 4 \<le> length q" by simp
    have m: "CHR ''/'' \<in> set (drop (length (q @ CHR ''/'' # nm) - 4) (q @ CHR ''/'' # nm))"
      using k by simp
    from e have eq: "drop (length (q @ CHR ''/'' # nm) - 4) (q @ CHR ''/'' # nm) = ''.git''"
      unfolding endsWith_def four by blast
    from m have "CHR ''/'' \<in> set ''.git''" unfolding eq .
    then show False by simp
  qed
qed


lemma search_https_in_ssh:
  assumes "CHR ''/'' \<notin> set own" "CHR ''/'' \<notin> set nm"
  shows "search_repo ''https://github.com/'' (''git@github.com:'' @ own @ ''/'' @ nm) = None"
proof (rule ccontr)
  assume "search_repo ''https://github.com/'' (''git@github.com:'' @ own @ ''/'' @ nm) \<noteq> None"
  then obtain m where
    "search_repo ''https://github.com/'' (''git@github.com:'' @ own @ ''/'' @ nm) = Some m"
    by blast
  from search_repo_slashes [OF this]
  have "3 \<le> length (filter (\<lambda>c. c = CHR ''/'') own) + 1 +
              length (filter (\<lambda>c. c = CHR ''/'') nm)"
    by simp
  moreover from assms have "filter (\<lambda>c. c = CHR ''/'') own = []"
    and "filter (\<lambda>c. c = CHR ''/'') nm = []"
    by (auto simp: filter_empty_conv)
  ultimately show False by simp
qed

lemma parsed_repo_clean:
  assumes "\<not> endsWith u ''.git''"
  shows "parsed_repo (u @ ''.git'') = parsed_repo u"
  using assms
  by (auto simp: parsed_repo_def parseGitUrl_def endsWith_append split: option.splits)

lemma name_chars_git:
  assumes "nm \<noteq> []" "CHR ''/'' \<notin> set nm" "CHR ''?'' \<notin> set nm"
  shows "name_chars nm" "name_chars (nm @ ''.git'')"
  using assms by (auto simp: name_chars_def list_all_iff)

lemma valid_repo_path_form:
  assumes "own \<noteq> []" "CHR ''/'' \<notin> set own" "name_chars tail"
  shows "valid_repo_path (own @ ''/'' @ tail)"
proof -
  have tw: "takeWhile (\<lambda>c. c \<noteq> CHR ''/'') (own @ CHR ''/'' # tail) = own"
    using assms(2) by (subst takeWhile_append2) auto
  have dw: "dropWhile (\<lambda>c. c \<noteq> CHR ''/'') (own @ CHR ''/'' # tail) = CHR ''/'' # tail"
    using assms(2) by (subst dropWhile_append2) auto
  show ?thesis using assms(1,3) by (simp add: valid_repo_path_def tw dw Let_def)
qed

lemma parseGitUrl_round_trip:
  assumes "own \<noteq> []" "CHR ''/'' \<notin> set own"
    and "nm \<noteq> []" "CHR ''/'' \<notin> set nm" "CHR ''?'' \<notin> set nm"
    and "\<not> endsWith nm ''.git''"
  shows "parsed_repo (https_form own nm) = Some (own, nm) \<and>
         parsed_repo (ssh_form own nm) = Some (own, nm) \<and>
         parsed_repo (https_form own nm @ ''.git'') = Some (own, nm) \<and>
         parsed_repo (ssh_form own nm @ ''.git'') = Some (own, nm) \<and>
         isValidGitUrl (https_form own nm) \<and> isValidGitUrl (ssh_form own nm) \<and>
         isValidGitUrl (https_form own nm @ ''.git'') \<and> isValidGitUrl (ssh_form own nm @ ''.git'')"
proof -
  have h_clean: "\<not> endsWith (https_form own nm) ''.git''"
    using not_endsWith_after_slash [OF assms(3,6), of "''https://github.com/'' @ own"]
    by (simp add: https_form_def)
  have s_clean: "\<not> endsWith (ssh_form own nm) ''.git''"
    using not_endsWith_after_slash [OF assms(3,6), of "''git@github.com:'' @ own"]
    by (simp add: ssh_form_def)
  have h_search: "search_repo ''https://github.com/'' (https_form own nm) = Some (own, nm)"
    unfolding https_form_def
    by (rule search_repo_at_start, rule match_repo_at_form) (use assms in auto)
  have s_search: "search_repo ''git@github.com:'' (ssh_form own nm) = Some (own, nm)"
    unfolding ssh_form_def
    by (rule search_repo_at_start, rule match_repo_at_form) (use assms in auto)
  have s_no_https: "search_repo ''https://github.com/'' (ssh_form own nm) = None"
    unfolding ssh_form_def by (rule search_https_in_ssh) (use assms in auto)
  have h: "parsed_repo (https_form own nm) = Some (own, nm)"
    using h_clean h_search by (simp add: parsed_repo_def parseGitUrl_def)
  have s: "parsed_repo (ssh_form own nm) = Some (own, nm)"
    using s_clean s_search s_no_https by (simp add: parsed_repo_def parseGitUrl_def)
  have v: "isValidGitUrl (https_form own nm)" "isValidGitUrl (ssh_form own nm)"
    "isValidGitUrl (https_form own nm @ ''.git'')" "isValidGitUrl (ssh_form own nm @ ''.git'')"
    using valid_repo_path_form [OF assms(1,2) name_chars_git(1) [OF assms(3,4,5)]]
      valid_repo_path_form [OF assms(1,2) name_chars_git(2) [OF assms(3,4,5)]]
    by (simp_all add: isValidGitUrl_def https_form_def ssh_form_def startsWith_def)
  from h s v parsed_repo_clean [OF h_clean] parsed_repo_clean [OF s_clean]
  show ?thesis by simp
qed

text \<open>
  C8. Adding the suffix \<^verbatim>\<open>.git\<close> to any address that does not end in it changes
  neither the owner nor the name that \<^verbatim>\<open>parseGitUrl\<close> extracts (nor whether it extracts
  any). For every owner (not empty, without slash) and every repository name (not empty,
  without slash and question mark, and, being the name without the suffix, not ending in
  \<^verbatim>\<open>.git\<close>), \<^verbatim>\<open>parseGitUrl\<close> extracts that owner and that name from the HTTPS form,
  from the SSH form, and from either form with the suffix; all four addresses pass
  \<^verbatim>\<open>isValidGitUrl\<close>.
\<close>

theorem parseGitUrl_forms_agree:
  "(\<forall>u. \<not> endsWith u ''.git'' \<longrightarrow> parsed_repo (u @ ''.git'') = parsed_repo u) \<and>
   (own \<noteq> [] \<and> CHR ''/'' \<notin> set own \<and> nm \<noteq> [] \<and> CHR ''/'' \<notin> set nm \<and>
    CHR ''?'' \<notin> set nm \<and> \<not> endsWith nm ''.git'' \<longrightarrow>
      parsed_repo (https_form own nm) = Some (own, nm) \<and>
      parsed_repo (ssh_form own nm) = Some (own, nm) \<and>
      parsed_repo (https_form own nm @ ''.git'') = Some (own, nm) \<and>
      parsed_repo (ssh_form own nm @ ''.git'') = Some (own, nm) \<and>
      isValidGitUrl (https_form own nm) \<and> isValidGitUrl (ssh_form own nm) \<and>
      isValidGitUrl (https_form own nm @ ''.git'') \<and>
      isValidGitUrl (ssh_form own nm @ ''.git''))"
  using parsed_repo_clean parseGitUrl_round_trip by blast

text \<open>C8 for the repository \<^verbatim>\<open>acme/widgets\<close>.\<close>

theorem parseGitUrl_forms_agree_witness:
  "\<not> endsWith ''https://github.com/acme/widgets'' ''.git'' \<and>
   parsed_repo ''https://github.com/acme/widgets'' = Some (''acme'', ''widgets'') \<and>
   parsed_repo ''git@github.com:acme/widgets'' = Some (''acme'', ''widgets'') \<and>
   parsed_repo ''https://github.com/acme/widgets.git'' = Some (''acme'', ''widgets'') \<and>
   parsed_repo ''git@github.com:acme/widgets.git'' = Some (''acme'', ''widgets'')"
  using parseGitUrl_forms_agree [of "''acme''" "''widgets''"]
  by (simp add: https_form_def ssh_form_def endsWith_def)

section \<open>Properties of the repository validation\<close>

text \<open>
  C10. For every address and any two access tokens (present or not), and whatever the
  API answers, \<^verbatim>\<open>validateRepository\<close> returns the same result for both, and so does
  \<^verbatim>\<open>getBranches\<close>: the request they send carries no header, so the result is the same
  in a world that never sees a header.
\<close>

theorem api_result_ignores_token:
  "validateRepository fetch g t1 = validateRepository fetch g t2 \<and>
   getBranches fetch g t1 = getBranches fetch g t2 \<and>
   validateRepository fetch g t1 =
     validateRepository (\<lambda>req. fetch (req\<lparr>request_headers := []\<rparr>)) g t1 \<and>
   getBranches fetch g t1 = getBranches (\<lambda>req. fetch (req\<lparr>request_headers := []\<rparr>)) g t1"
  by (simp add: validateRepository_def getBranches_def Let_def split: option.splits)

text \<open>C10 in the sample world: with the token that would open the repository, the
  answer is that of a request without token.\<close>

theorem api_result_ignores_token_witness:
  "validateRepository sample_api ''https://github.com/acme/widgets'' (Some ''secret'') =
     validateRepository sample_api ''https://github.com/acme/widgets'' None \<and>
   v_exists (validateRepository sample_api ''https://github.com/acme/widgets'' (Some ''secret''))
     = False \<and>
   getBranches sample_api ''https://github.com/acme/widgets'' (Some ''secret'') =
     [Some (JString ''main'')]"
proof -
  have parsed: "parseGitUrl ''https://github.com/acme/widgets'' =
      Some \<lparr>info_url = ''https://github.com/acme/widgets'', info_name = ''widgets'',
            info_owner = ''acme'', info_branch = ''main'', info_isPrivate = False\<rparr>"
    by (simp add: parseGitUrl_def endsWith_def match_repo_at_def startsWith_def Let_def)
  from api_result_ignores_token
    [where fetch = sample_api and g = "''https://github.com/acme/widgets''"
       and ?t1.0 = "Some ''secret''" and ?t2.0 = None]
  show ?thesis
    by (simp add: validateRepository_def getBranches_def parsed sample_api_def
        validation_failed_def Let_def)
qed

section \<open>Properties of the clone route\<close>

lemma POST_in_sandbox:
  assumes "session env = Returns True" "request_json env = Returns b"
    and "cloneSchema_parse isUrl b = Inr r"
    and "create env (wanted_sandbox r) = Returns (Some sid)"
  shows "POST isUrl jp env =
     (case clone_in_sandbox jp env r (case wanted_sandbox r of Some w \<Rightarrow> w | None \<Rightarrow> sid) of
        (resp, calls) \<Rightarrow> (resp, Create (wanted_sandbox r) # calls))"
  using assms by (simp add: POST_def Let_def)

lemma sample_request_parsed:
  "cloneSchema_parse sample_isUrl
     (JObject [(''gitUrl'', JString ''https://github.com/acme/widgets''),
               (''projectName'', JString ''widgets'')]) = Inr sample_request"
  by (simp add: cloneSchema_parse_def zod_string_def zod_optional_string_def
      zod_optional_boolean_def issue_def sample_isUrl_def sample_request_def Let_def)

lemma wanted_sample_request: "wanted_sandbox sample_request = None"
  by (simp add: wanted_sandbox_def sample_request_def truthy_string_def)

lemma sample_port: "string_of_nat 3000 = ''3000''"
  by code_simp

lemma sample_request_fields:
  "projectName sample_request = ''widgets''"
  "gitUrl sample_request = ''https://github.com/acme/widgets''"
  by (simp_all add: sample_request_def)

lemma sample_report_parsed:
  "read_project_info sample_json_parse [Some sample_report_line] =
     JObject [(''success'', JBool True), (''hasPackageJson'', JBool True)]"
proof -
  have "trim sample_report_line = sample_report_line"
    by (simp add: trim_def white_space_def sample_report_line_def)
  moreover have "last (split_on (CHR 0x0A) sample_report_line) = sample_report_line"
    by (simp add: sample_report_line_def)
  moreover have "sample_report_line \<noteq> []" by (simp add: sample_report_line_def)
  ultimately show ?thesis
    by (simp add: read_project_info_def truthy_string_def sample_json_parse_def Let_def)
qed







lemma no_script_report:
  "''dev'' \<notin> set ks \<Longrightarrow> ''start'' \<notin> set ks \<Longrightarrow> ''serve'' \<notin> set ks \<Longrightarrow>
     launch_script (Scripts ks) p = NoDevScript"
  by (simp add: launch_script_def select_dev_command_def)

lemma clone_in_sandbox_success:
  assumes "clone_run env = Returns report" "check_run env = Returns results"
    and "get_prop (read_project_info jp results) ''success'' = Inr ok" "truthy ok"
    and "get_prop (read_project_info jp results) ''hasPackageJson'' = Inr h" "truthy h"
    and "install_run env = Returns ()"
  shows "clone_in_sandbox jp env r target =
     (\<lparr>http_status = 200,
       body = SuccessBody
         \<lparr>success = True, body_sandboxId = target, body_projectName = projectName r,
          projectInfo = read_project_info jp results,
          serverUrl = fst (startDevServer env (projectName r) (read_project_info jp results)),
          message = ''Repository '' @ [CHR 0x27] @ gitUrl r @ [CHR 0x27] @
                    '' cloned successfully!''\<rparr>\<rparr>,
      [RunClone (cloneCommand r), RunCheck (projectName r), RunInstall (projectName r)] @
      snd (startDevServer env (projectName r) (read_project_info jp results)))"
  using assms
  by (simp add: clone_in_sandbox_def clone_steps_def Let_def split: prod.splits)

text \<open>
  C4, as stated, fails. In the sample sandbox the project has a package manifest that
  declares the scripts \<^verbatim>\<open>build\<close> and \<^verbatim>\<open>test\<close> only, so the launch script selects no
  command; the handler answers with \<^verbatim>\<open>success: true\<close> and with the address of port 3000 as
  \<^verbatim>\<open>serverUrl\<close>, not with \<^verbatim>\<open>null\<close>.
\<close>

theorem no_run_script_still_serverUrl:
  "package_manifest sample_env = Scripts [''build'', ''test''] \<and>
   select_dev_command [''build'', ''test''] = None \<and>
   fst (POST sample_isUrl sample_json_parse sample_env) =
     \<lparr>http_status = 200,
      body = SuccessBody
        \<lparr>success = True, body_sandboxId = ''sbx-1'', body_projectName = ''widgets'',
         projectInfo = JObject [(''success'', JBool True), (''hasPackageJson'', JBool True)],
         serverUrl = Some ''https://3000-sbx-1.e2b.dev'',
         message = ''Repository '' @ [CHR 0x27] @ ''https://github.com/acme/widgets'' @
                   [CHR 0x27] @ '' cloned successfully!''\<rparr>\<rparr>"
  by (simp add: POST_def sample_env_def sample_request_parsed wanted_sample_request
      sample_request_fields clone_in_sandbox_def clone_steps_def sample_report_parsed
      startDevServer_def select_dev_command_def sample_port Let_def)

text \<open>
  C4, amended. For every clone request that reaches a project with a package manifest
  and whose install call returns, the handler answers 200 with \<^verbatim>\<open>success: true\<close>;
  \<^verbatim>\<open>serverUrl\<close> is \<^verbatim>\<open>https://\<close> followed by the host name of port 3000 whenever the launch
  call and the host name lookup return, and \<^verbatim>\<open>null\<close> only when one of them throws. This
  does not depend on the manifest: when it declares none of \<^verbatim>\<open>dev\<close>, \<^verbatim>\<open>start\<close>,
  \<^verbatim>\<open>serve\<close>, the launch script starts nothing and reports that there is no dev script.
\<close>

theorem serverUrl_when_manifest_present:
  assumes "session env = Returns True" "request_json env = Returns b"
    and "cloneSchema_parse isUrl b = Inr r"
    and "create env (wanted_sandbox r) = Returns (Some sid)"
    and "clone_run env = Returns report" "check_run env = Returns results"
    and "get_prop (read_project_info jp results) ''success'' = Inr ok" "truthy ok"
    and "get_prop (read_project_info jp results) ''hasPackageJson'' = Inr h" "truthy h"
    and "install_run env = Returns ()"
  shows "http_status (fst (POST isUrl jp env)) = 200 \<and>
         (\<exists>sb. body (fst (POST isUrl jp env)) = SuccessBody sb \<and> success sb \<and>
               projectInfo sb = read_project_info jp results \<and>
               (\<forall>host. launch_run env = Returns () \<longrightarrow> getHostname env 3000 = Returns host \<longrightarrow>
                  serverUrl sb = Some (''https://'' @ host)) \<and>
               (\<forall>e. launch_run env = Throws e \<or>
                    (launch_run env = Returns () \<and> getHostname env 3000 = Throws e) \<longrightarrow>
                  serverUrl sb = None)) \<and>
         (launch_run env = Returns () \<longrightarrow>
            snd (POST isUrl jp env) =
              [Create (wanted_sandbox r), RunClone (cloneCommand r), RunCheck (projectName r),
               RunInstall (projectName r),
               RunLaunch (projectName r)
                 (Some (launch_script (package_manifest env) (server_process env))),
               GetHostname 3000]) \<and>
         (\<forall>ks p. ''dev'' \<notin> set ks \<longrightarrow> ''start'' \<notin> set ks \<longrightarrow> ''serve'' \<notin> set ks \<longrightarrow>
            launch_script (Scripts ks) p = NoDevScript)"
proof -
  note reach = POST_in_sandbox [OF assms(1-4), of jp]
  note run = clone_in_sandbox_success [OF assms(5-11)]
  have url: "fst (startDevServer env pn (read_project_info jp results)) = Some (''https://'' @ host)"
    if "launch_run env = Returns ()" "getHostname env 3000 = Returns host" for host pn
    using that assms(9,10) by (simp add: startDevServer_def Let_def)
  have null: "fst (startDevServer env pn (read_project_info jp results)) = None"
    if "launch_run env = Throws e \<or> (launch_run env = Returns () \<and> getHostname env 3000 = Throws e)"
    for e pn
    using that assms(9,10) by (auto simp: startDevServer_def Let_def)
  have calls: "snd (startDevServer env pn (read_project_info jp results)) =
      [RunLaunch pn (Some (launch_script (package_manifest env) (server_process env))),
       GetHostname 3000]"
    if "launch_run env = Returns ()" for pn
    using that assms(9,10) by (simp add: startDevServer_def Let_def split: outcome.splits)
  show ?thesis
    using url null calls no_script_report by (simp add: reach run)
qed

text \<open>The amended C4 in the sample sandbox, and in the one whose launch call
  throws.\<close>

theorem serverUrl_when_manifest_present_witness:
  "http_status (fst (POST sample_isUrl sample_json_parse sample_env)) = 200 \<and>
   snd (POST sample_isUrl sample_json_parse sample_env) =
     [Create None, RunClone (cloneCommand sample_request), RunCheck ''widgets'',
      RunInstall ''widgets'', RunLaunch ''widgets'' (Some NoDevScript), GetHostname 3000] \<and>
   body (fst (POST sample_isUrl sample_json_parse sample_env_launch_throws)) =
     SuccessBody
       \<lparr>success = True, body_sandboxId = ''sbx-1'', body_projectName = ''widgets'',
        projectInfo = JObject [(''success'', JBool True), (''hasPackageJson'', JBool True)],
        serverUrl = None,
        message = ''Repository '' @ [CHR 0x27] @ ''https://github.com/acme/widgets'' @
                  [CHR 0x27] @ '' cloned successfully!''\<rparr>"
proof -
  have env: "session sample_env = Returns True"
    "request_json sample_env =
       Returns (JObject [(''gitUrl'', JString ''https://github.com/acme/widgets''),
                         (''projectName'', JString ''widgets'')])"
    "create sample_env (wanted_sandbox sample_request) = Returns (Some ''sbx-1'')"
    "clone_run sample_env = Returns (CloneExit 0)"
    "check_run sample_env = Returns [Some sample_report_line]"
    "install_run sample_env = Returns ()"
    "launch_run sample_env = Returns ()"
    "package_manifest sample_env = Scripts [''build'', ''test'']"
    "server_process sample_env = Exited"
    by (simp_all add: sample_env_def)
  have env': "session sample_env_launch_throws = Returns True"
    "request_json sample_env_launch_throws =
       Returns (JObject [(''gitUrl'', JString ''https://github.com/acme/widgets''),
                         (''projectName'', JString ''widgets'')])"
    "create sample_env_launch_throws (wanted_sandbox sample_request) = Returns (Some ''sbx-1'')"
    "clone_run sample_env_launch_throws = Returns (CloneExit 0)"
    "check_run sample_env_launch_throws = Returns [Some sample_report_line]"
    "install_run sample_env_launch_throws = Returns ()"
    "launch_run sample_env_launch_throws = Throws (ErrorObject ''timeout'')"
    by (simp_all add: sample_env_launch_throws_def sample_env_def)
  have ok: "get_prop (read_project_info sample_json_parse [Some sample_report_line]) ''success''
      = Inr (Some (JBool True))"
    and manifest:
      "get_prop (read_project_info sample_json_parse [Some sample_report_line]) ''hasPackageJson''
        = Inr (Some (JBool True))"
    by (simp_all add: sample_report_parsed)
  have t: "truthy (Some (JBool True))" by simp
  have returned: "http_status (fst (POST sample_isUrl sample_json_parse sample_env)) = 200 \<and>
      snd (POST sample_isUrl sample_json_parse sample_env) =
        [Create None, RunClone (cloneCommand sample_request), RunCheck ''widgets'',
         RunInstall ''widgets'', RunLaunch ''widgets'' (Some NoDevScript), GetHostname 3000]"
    using serverUrl_when_manifest_present
      [OF env(1,2) sample_request_parsed env(3,4,5) ok t manifest t env(6)] env(7,8,9)
    by (simp add: wanted_sample_request sample_request_fields launch_script_def
        select_dev_command_def)
  from serverUrl_when_manifest_present
    [OF env'(1,2) sample_request_parsed env'(3,4,5) ok t manifest t env'(6)] env'(7)
  obtain sb where sb: "body (fst (POST sample_isUrl sample_json_parse sample_env_launch_throws))
      = SuccessBody sb" "serverUrl sb = None"
    by blast
  have "body (fst (POST sample_isUrl sample_json_parse sample_env_launch_throws)) =
     SuccessBody
       \<lparr>success = True, body_sandboxId = ''sbx-1'', body_projectName = ''widgets'',
        projectInfo = JObject [(''success'', JBool True), (''hasPackageJson'', JBool True)],
        serverUrl = serverUrl sb,
        message = ''Repository '' @ [CHR 0x27] @ ''https://github.com/acme/widgets'' @
                  [CHR 0x27] @ '' cloned successfully!''\<rparr>"
    using sb(1)
    by (auto simp: POST_def sample_env_launch_throws_def sample_env_def sample_request_parsed
        wanted_sample_request sample_request_fields clone_in_sandbox_def clone_steps_def
        sample_report_parsed startDevServer_def Let_def)
  with returned sb(2) show ?thesis by simp
qed

lemma read_project_info_no_text:
  "(case results of [] \<Rightarrow> True | t # _ \<Rightarrow> \<not> truthy_string t) \<Longrightarrow>
     read_project_info jp results = JObject [(''success'', JBool False)]"
  by (auto simp: read_project_info_def Let_def truthy_string_def split: list.splits)

lemma read_project_info_unparsed:
  "t \<noteq> [] \<Longrightarrow> jp (last (split_on (CHR 0x0A) (trim t))) = None \<Longrightarrow>
     read_project_info jp (Some t # rest) =
       JObject [(''success'', JBool False), (''error'', JString ''Failed to parse project info'')]"
  by (simp add: read_project_info_def Let_def truthy_string_def)

lemma read_project_info_parsed:
  "t \<noteq> [] \<Longrightarrow> jp (last (split_on (CHR 0x0A) (trim t))) = Some v \<Longrightarrow>
     read_project_info jp (Some t # rest) = v"
  by (simp add: read_project_info_def Let_def truthy_string_def)

lemma clone_in_sandbox_not_success:
  assumes "clone_run env = Returns report" "check_run env = Returns results"
    and "get_prop (read_project_info jp results) ''success'' = Inr ok" "\<not> truthy ok"
  shows "close env 0 = Returns () \<Longrightarrow>
           clone_in_sandbox jp env r target =
             (\<lparr>http_status = 400,
               body = ErrorBody (or_default (projr (get_prop (read_project_info jp results) ''error''))
                                   (JString ''Failed to clone repository''))\<rparr>,
              [RunClone (cloneCommand r), RunCheck (projectName r), Close])"
    and "close env 0 = Throws e \<Longrightarrow> close env 1 = Returns () \<Longrightarrow>
           clone_in_sandbox jp env r target =
             (error_response 500 (''Clone operation failed: '' @ error_message e),
              [RunClone (cloneCommand r), RunCheck (projectName r), Close, Close])"
    and "close env 0 = Throws e \<Longrightarrow> close env 1 = Throws e' \<Longrightarrow>
           clone_in_sandbox jp env r target =
             (error_response 500 ''Internal server error'',
              [RunClone (cloneCommand r), RunCheck (projectName r), Close, Close])"
  using assms by (simp_all add: clone_in_sandbox_def clone_steps_def Let_def)

lemma clone_in_sandbox_check_throws:
  assumes "clone_run env = Returns report" "check_run env = Throws e"
  shows "close env 0 = Returns () \<Longrightarrow>
           clone_in_sandbox jp env r target =
             (error_response 500 (''Clone operation failed: '' @ error_message e),
              [RunClone (cloneCommand r), RunCheck (projectName r), Close])"
    and "close env 0 = Throws e' \<Longrightarrow>
           clone_in_sandbox jp env r target =
             (error_response 500 ''Internal server error'',
              [RunClone (cloneCommand r), RunCheck (projectName r), Close])"
  using assms by (simp_all add: clone_in_sandbox_def clone_steps_def Let_def)

lemma clone_in_sandbox_null_info:
  assumes "clone_run env = Returns report" "check_run env = Returns results"
    and "read_project_info jp results = JNull"
  shows "close env 0 = Returns () \<Longrightarrow>
           clone_in_sandbox jp env r target =
             (error_response 500
                (''Clone operation failed: '' @ error_message (projl (get_prop JNull ''success''))),
              [RunClone (cloneCommand r), RunCheck (projectName r), Close])"
    and "close env 0 = Throws e' \<Longrightarrow>
           clone_in_sandbox jp env r target =
             (error_response 500 ''Internal server error'',
              [RunClone (cloneCommand r), RunCheck (projectName r), Close])"
  using assms by (simp_all add: clone_in_sandbox_def clone_steps_def Let_def)

lemma not_null_get_prop: "v \<noteq> JNull \<Longrightarrow> get_prop v k = Inr (projr (get_prop v k))"
  by (cases v) simp_all

lemma trim_no_break_space: "trim (CHR 0xA0 # sample_report_line) = sample_report_line"
  by (simp add: trim_def white_space_def sample_report_line_def)

text \<open>
  C6, as stated, fails. In the sample sandbox the clone exits with code zero and the
  inspection call throws: the handler closes the sandbox and answers 500, not 400.
\<close>

theorem inspection_throws_answers_500:
  "clone_run sample_env_check_throws = Returns (CloneExit 0) \<and>
   check_run sample_env_check_throws = Throws (ErrorObject ''sandbox timeout'') \<and>
   fst (POST sample_isUrl sample_json_parse sample_env_check_throws) =
     \<lparr>http_status = 500,
      body = ErrorBody (JString ''Clone operation failed: sandbox timeout'')\<rparr> \<and>
   snd (POST sample_isUrl sample_json_parse sample_env_check_throws) =
     [Create None, RunClone (cloneCommand sample_request), RunCheck ''widgets'', Close]"
  by (simp add: POST_def sample_env_check_throws_def sample_env_def sample_request_parsed
      wanted_sample_request sample_request_fields clone_in_sandbox_def clone_steps_def
      error_response_def error_message_def Let_def)

text \<open>
  C6, amended. Let the handler reach the inspection, whatever the clone script
  reported. When the inspection call returns, the project info is \<^verbatim>\<open>{"success": false}\<close>
  if there is no first result or no text, the parse failure object if the last line of
  the trimmed text cannot be parsed, and the parsed value otherwise. When that info is
  not \<^verbatim>\<open>null\<close> and has no truthy \<^verbatim>\<open>success\<close>, the handler closes the sandbox and, if that
  close returns, answers 400 with the reported error or \<^verbatim>\<open>Failed to clone repository\<close>,
  after the calls create, clone, inspection, close. When the info is \<^verbatim>\<open>null\<close>, reading
  \<^verbatim>\<open>success\<close> throws: the handler closes the sandbox and answers 500. When the inspection
  call itself throws, the handler closes the sandbox and answers 500.
\<close>

theorem inspection_failure_closes_sandbox:
  assumes "session env = Returns True" "request_json env = Returns b"
    and "cloneSchema_parse isUrl b = Inr r"
    and "create env (wanted_sandbox r) = Returns (Some sid)"
    and "clone_run env = Returns report"
  shows "(\<forall>results. check_run env = Returns results \<longrightarrow>
            read_project_info jp results \<noteq> JNull \<longrightarrow>
            \<not> truthy (projr (get_prop (read_project_info jp results) ''success'')) \<longrightarrow>
              Close \<in> set (snd (POST isUrl jp env)) \<and>
              (close env 0 = Returns () \<longrightarrow>
                 POST isUrl jp env =
                   (\<lparr>http_status = 400,
                     body = ErrorBody
                       (or_default (projr (get_prop (read_project_info jp results) ''error''))
                          (JString ''Failed to clone repository''))\<rparr>,
                    [Create (wanted_sandbox r), RunClone (cloneCommand r),
                     RunCheck (projectName r), Close]))) \<and>
         (\<forall>results. check_run env = Returns results \<longrightarrow>
            read_project_info jp results = JNull \<longrightarrow>
              Close \<in> set (snd (POST isUrl jp env)) \<and>
              http_status (fst (POST isUrl jp env)) = 500 \<and>
              (close env 0 = Returns () \<longrightarrow>
                 POST isUrl jp env =
                   (error_response 500
                      (''Clone operation failed: '' @
                       error_message (projl (get_prop JNull ''success''))),
                    [Create (wanted_sandbox r), RunClone (cloneCommand r),
                     RunCheck (projectName r), Close]))) \<and>
         (\<forall>results. (case results of [] \<Rightarrow> True | t # _ \<Rightarrow> \<not> truthy_string t) \<longrightarrow>
            read_project_info jp results = JObject [(''success'', JBool False)]) \<and>
         (\<forall>t rest. t \<noteq> [] \<longrightarrow> jp (last (split_on (CHR 0x0A) (trim t))) = None \<longrightarrow>
            read_project_info jp (Some t # rest) =
              JObject [(''success'', JBool False),
                       (''error'', JString ''Failed to parse project info'')]) \<and>
         (\<forall>t rest v. t \<noteq> [] \<longrightarrow> jp (last (split_on (CHR 0x0A) (trim t))) = Some v \<longrightarrow>
            read_project_info jp (Some t # rest) = v) \<and>
         (\<forall>e. check_run env = Throws e \<longrightarrow>
            Close \<in> set (snd (POST isUrl jp env)) \<and>
            http_status (fst (POST isUrl jp env)) = 500 \<and>
            (close env 0 = Returns () \<longrightarrow>
               POST isUrl jp env =
                 (error_response 500 (''Clone operation failed: '' @ error_message e),
                  [Create (wanted_sandbox r), RunClone (cloneCommand r),
                   RunCheck (projectName r), Close])))"
proof -
  note reach = POST_in_sandbox [OF assms(1-4), of jp]
  have not_success:
    "Close \<in> set (snd (POST isUrl jp env)) \<and>
     (close env 0 = Returns () \<longrightarrow>
        POST isUrl jp env =
          (\<lparr>http_status = 400,
            body = ErrorBody
              (or_default (projr (get_prop (read_project_info jp results) ''error''))
                 (JString ''Failed to clone repository''))\<rparr>,
           [Create (wanted_sandbox r), RunClone (cloneCommand r),
            RunCheck (projectName r), Close]))"
    if c: "check_run env = Returns results"
      and n: "read_project_info jp results \<noteq> JNull"
      and t: "\<not> truthy (projr (get_prop (read_project_info jp results) ''success''))"
    for results
  proof -
    from n have g: "get_prop (read_project_info jp results) ''success'' =
        Inr (projr (get_prop (read_project_info jp results) ''success''))"
      by (rule not_null_get_prop)
    show ?thesis
    proof (cases "close env 0")
      case (Returns x)
      then have "close env 0 = Returns ()" by simp
      from clone_in_sandbox_not_success(1) [OF assms(5) c g t this] show ?thesis
        by (simp add: reach)
    next
      case first: (Throws e)
      show ?thesis
      proof (cases "close env 1")
        case (Returns x)
        then have "close env 1 = Returns ()" by simp
        from clone_in_sandbox_not_success(2) [OF assms(5) c g t first this] first show ?thesis
          by (simp add: reach)
      next
        case (Throws e')
        from clone_in_sandbox_not_success(3) [OF assms(5) c g t first this] first show ?thesis
          by (simp add: reach)
      qed
    qed
  qed
  have null_info:
    "Close \<in> set (snd (POST isUrl jp env)) \<and>
     http_status (fst (POST isUrl jp env)) = 500 \<and>
     (close env 0 = Returns () \<longrightarrow>
        POST isUrl jp env =
          (error_response 500
             (''Clone operation failed: '' @ error_message (projl (get_prop JNull ''success''))),
           [Create (wanted_sandbox r), RunClone (cloneCommand r),
            RunCheck (projectName r), Close]))"
    if c: "check_run env = Returns results" and n: "read_project_info jp results = JNull"
    for results
  proof (cases "close env 0")
    case (Returns x)
    then have "close env 0 = Returns ()" by simp
    from clone_in_sandbox_null_info(1) [OF assms(5) c n this] show ?thesis
      by (simp add: reach error_response_def)
  next
    case (Throws e')
    from clone_in_sandbox_null_info(2) [OF assms(5) c n this] Throws show ?thesis
      by (simp add: reach error_response_def)
  qed
  have no_text: "read_project_info jp results = JObject [(''success'', JBool False)]"
    if "case results of [] \<Rightarrow> True | t # _ \<Rightarrow> \<not> truthy_string t" for results
    using that by (simp add: read_project_info_no_text)
  have unparsed:
    "read_project_info jp (Some t # rest) =
       JObject [(''success'', JBool False), (''error'', JString ''Failed to parse project info'')]"
    if "t \<noteq> []" "jp (last (split_on (CHR 0x0A) (trim t))) = None" for t rest
    using that by (simp add: read_project_info_unparsed)
  have parsed: "read_project_info jp (Some t # rest) = v"
    if "t \<noteq> []" "jp (last (split_on (CHR 0x0A) (trim t))) = Some v" for t rest v
    using that by (simp add: read_project_info_parsed)
  have thrown:
    "Close \<in> set (snd (POST isUrl jp env)) \<and>
     http_status (fst (POST isUrl jp env)) = 500 \<and>
     (close env 0 = Returns () \<longrightarrow>
        POST isUrl jp env =
          (error_response 500 (''Clone operation failed: '' @ error_message e),
           [Create (wanted_sandbox r), RunClone (cloneCommand r),
            RunCheck (projectName r), Close]))"
    if c: "check_run env = Throws e" for e
  proof (cases "close env 0")
    case (Returns x)
    then have "close env 0 = Returns ()" by simp
    from clone_in_sandbox_check_throws(1) [OF assms(5) c this] show ?thesis
      by (simp add: reach error_response_def)
  next
    case (Throws e')
    from clone_in_sandbox_check_throws(2) [OF assms(5) c this] Throws show ?thesis
      by (simp add: reach error_response_def)
  qed
  from not_success null_info no_text unparsed parsed thrown
  show ?thesis by (intro conjI allI impI) blast+
qed

text \<open>The amended C6 in the sample sandboxes whose inspection returns no result,
  returns a text that is no JSON, returns the text \<^verbatim>\<open>null\<close>, and throws.\<close>

theorem inspection_failure_closes_sandbox_witness:
  "clone_run sample_env_no_result = Returns (CloneExit 0) \<and>
   POST sample_isUrl sample_json_parse sample_env_no_result =
     (\<lparr>http_status = 400, body = ErrorBody (JString ''Failed to clone repository'')\<rparr>,
      [Create None, RunClone (cloneCommand sample_request), RunCheck ''widgets'', Close]) \<and>
   POST sample_isUrl sample_json_parse sample_env_unparsed =
     (\<lparr>http_status = 400, body = ErrorBody (JString ''Failed to parse project info'')\<rparr>,
      [Create None, RunClone (cloneCommand sample_request), RunCheck ''widgets'', Close]) \<and>
   POST sample_isUrl sample_json_parse sample_env_null =
     (\<lparr>http_status = 500,
       body = ErrorBody
         (JString (''Clone operation failed: Cannot read properties of null (reading '' @
                   [CHR 0x27] @ ''success'' @ [CHR 0x27] @ '')''))\<rparr>,
      [Create None, RunClone (cloneCommand sample_request), RunCheck ''widgets'', Close]) \<and>
   POST sample_isUrl sample_json_parse sample_env_check_throws =
     (\<lparr>http_status = 500,
       body = ErrorBody (JString ''Clone operation failed: sandbox timeout'')\<rparr>,
      [Create None, RunClone (cloneCommand sample_request), RunCheck ''widgets'', Close])"
proof -
  have body: "request_json sample_env =
       Returns (JObject [(''gitUrl'', JString ''https://github.com/acme/widgets''),
                         (''projectName'', JString ''widgets'')])"
    by (simp add: sample_env_def)
  have a: "session sample_env_no_result = Returns True"
    "request_json sample_env_no_result = request_json sample_env"
    "create sample_env_no_result (wanted_sandbox sample_request) = Returns (Some ''sbx-1'')"
    "clone_run sample_env_no_result = Returns (CloneExit 0)"
    "check_run sample_env_no_result = Returns []"
    "close sample_env_no_result 0 = Returns ()"
    by (simp_all add: sample_env_no_result_def sample_env_def)
  have b: "session sample_env_unparsed = Returns True"
    "request_json sample_env_unparsed = request_json sample_env"
    "create sample_env_unparsed (wanted_sandbox sample_request) = Returns (Some ''sbx-1'')"
    "clone_run sample_env_unparsed = Returns (CloneExit 0)"
    "check_run sample_env_unparsed = Returns [Some ''Traceback'']"
    "close sample_env_unparsed 0 = Returns ()"
    by (simp_all add: sample_env_unparsed_def sample_env_def)
  have c: "session sample_env_check_throws = Returns True"
    "request_json sample_env_check_throws = request_json sample_env"
    "create sample_env_check_throws (wanted_sandbox sample_request) = Returns (Some ''sbx-1'')"
    "clone_run sample_env_check_throws = Returns (CloneExit 0)"
    "check_run sample_env_check_throws = Throws (ErrorObject ''sandbox timeout'')"
    "close sample_env_check_throws 0 = Returns ()"
    by (simp_all add: sample_env_check_throws_def sample_env_def)
  have d: "session sample_env_null = Returns True"
    "request_json sample_env_null = request_json sample_env"
    "create sample_env_null (wanted_sandbox sample_request) = Returns (Some ''sbx-1'')"
    "clone_run sample_env_null = Returns (CloneExit 0)"
    "check_run sample_env_null = Returns [Some ''null'']"
    "close sample_env_null 0 = Returns ()"
    by (simp_all add: sample_env_null_def sample_env_def)
  have empty: "read_project_info sample_json_parse [] = JObject [(''success'', JBool False)]"
    by (simp add: read_project_info_def truthy_string_def)
  have unparsed: "read_project_info sample_json_parse [Some ''Traceback''] =
      JObject [(''success'', JBool False), (''error'', JString ''Failed to parse project info'')]"
    by (simp add: read_project_info_def truthy_string_def trim_def white_space_def
        sample_json_parse_def sample_report_line_def Let_def)
  have null: "read_project_info sample_json_parse [Some ''null''] = JNull"
    by (simp add: read_project_info_def truthy_string_def trim_def white_space_def
        sample_json_parse_def sample_report_line_def Let_def)
  have "POST sample_isUrl sample_json_parse sample_env_no_result =
     (\<lparr>http_status = 400, body = ErrorBody (JString ''Failed to clone repository'')\<rparr>,
      [Create None, RunClone (cloneCommand sample_request), RunCheck ''widgets'', Close])"
    using inspection_failure_closes_sandbox
      [OF a(1) a(2) [unfolded body] sample_request_parsed a(3,4), of sample_json_parse]
      a(5,6) empty
    by (simp add: wanted_sample_request sample_request_fields or_default_def)
  moreover have "POST sample_isUrl sample_json_parse sample_env_unparsed =
     (\<lparr>http_status = 400, body = ErrorBody (JString ''Failed to parse project info'')\<rparr>,
      [Create None, RunClone (cloneCommand sample_request), RunCheck ''widgets'', Close])"
    using inspection_failure_closes_sandbox
      [OF b(1) b(2) [unfolded body] sample_request_parsed b(3,4), of sample_json_parse]
      b(5,6) unparsed
    by (simp add: wanted_sample_request sample_request_fields or_default_def)
  moreover have "POST sample_isUrl sample_json_parse sample_env_null =
     (\<lparr>http_status = 500,
       body = ErrorBody
         (JString (''Clone operation failed: Cannot read properties of null (reading '' @
                   [CHR 0x27] @ ''success'' @ [CHR 0x27] @ '')''))\<rparr>,
      [Create None, RunClone (cloneCommand sample_request), RunCheck ''widgets'', Close])"
    using inspection_failure_closes_sandbox
      [OF d(1) d(2) [unfolded body] sample_request_parsed d(3,4), of sample_json_parse]
      d(5,6) null
    by (simp add: wanted_sample_request sample_request_fields error_response_def
        error_message_def)
  moreover have "POST sample_isUrl sample_json_parse sample_env_check_throws =
     (\<lparr>http_status = 500,
       body = ErrorBody (JString ''Clone operation failed: sandbox timeout'')\<rparr>,
      [Create None, RunClone (cloneCommand sample_request), RunCheck ''widgets'', Close])"
    using inspection_failure_closes_sandbox
      [OF c(1) c(2) [unfolded body] sample_request_parsed c(3,4), of sample_json_parse]
      c(5,6)
    by (simp add: wanted_sample_request sample_request_fields error_response_def
        error_message_def)
  ultimately show ?thesis using a(4) by simp
qed

end
